theory Spec2Isabelle
  imports Complex_Main
begin

section \<open>Python values used by the model\<close>

text \<open>
  Exceptions are values. Every function of the source that can raise returns
  \<open>error + 'a\<close>, with \<open>Inl\<close> carrying the exception class.
\<close>

datatype error =
    ValueError
  | TypeError
  | IndexError
  | ZeroDivisionError
  | NotImplementedError
  | AssertionError
  | KeyError
  | EinopsError
  | RuntimeError
  | AttributeError

definition and_then :: "error + 'a \<Rightarrow> ('a \<Rightarrow> error + 'b) \<Rightarrow> error + 'b" where
  "and_then r f = (case r of Inl e \<Rightarrow> Inl e | Inr v \<Rightarrow> f v)"

text \<open>\<open>a // b\<close> on Python integers: floor division, raising on a zero divisor.\<close>

definition floordiv :: "int \<Rightarrow> int \<Rightarrow> error + int" where
  "floordiv a b = (if b = 0 then Inl ZeroDivisionError else Inr (a div b))"

text \<open>\<open>xs[i]\<close>: a negative index counts from the end, an index out of range raises.\<close>

definition item :: "'a list \<Rightarrow> int \<Rightarrow> error + 'a" where
  "item xs i =
     (if 0 \<le> i \<and> i < int (length xs) then Inr (xs ! nat i)
      else if i < 0 \<and> - int (length xs) \<le> i then Inr (xs ! nat (int (length xs) + i))
      else Inl IndexError)"

text \<open>\<open>xs[0:j]\<close>: a slice never raises; a negative bound counts from the end.\<close>

definition slice_to :: "'a list \<Rightarrow> int \<Rightarrow> 'a list" where
  "slice_to xs j = (if 0 \<le> j then take (nat j) xs else take (nat (int (length xs) + j)) xs)"

text \<open>
  \<open>conv_op\<close> is a class object that the source compares with \<open>nn.Conv2d\<close> and
  \<open>nn.Conv3d\<close>; \<open>Conv1d\<close> stands for every other class.
\<close>

datatype conv_op = Conv1d | Conv2d | Conv3d

text \<open>
  An entry of \<open>strides\<close> or \<open>kernel_sizes\<close> is an integer or a sequence of
  integers (one per axis).
\<close>

datatype axes = Scalar int | PerAxis "int list"

text \<open>\<open>h_k, w_k = entry\<close> and \<open>h_k, w_k, d_k = entry\<close>.\<close>

fun unpack2 :: "axes \<Rightarrow> error + (int \<times> int)" where
  "unpack2 (PerAxis [a, b]) = Inr (a, b)"
| "unpack2 (PerAxis _) = Inl ValueError"
| "unpack2 (Scalar _) = Inl TypeError"

fun unpack3 :: "axes \<Rightarrow> error + (int \<times> int \<times> int)" where
  "unpack3 (PerAxis [a, b, c]) = Inr (a, b, c)"
| "unpack3 (PerAxis _) = Inl ValueError"
| "unpack3 (Scalar _) = Inl TypeError"

section \<open>The resolution schedule of encoder and decoder\<close>

text \<open>
  \<open>NexToU_Encoder.__init__\<close>, the block that fills \<open>img_shape_list\<close> and
  \<open>n_size_list\<close>. The two \<open>for\<close> loops are recursions over
  \<open>pool_op_kernel_sizes\<close> that carry \<open>h\<close>, \<open>w\<close> (\<open>d\<close>) and both lists.
\<close>

fun encoder_loop2d ::
  "axes list \<Rightarrow> int \<Rightarrow> int \<Rightarrow> int list list \<Rightarrow> int list \<Rightarrow> error + (int list list \<times> int list)"
where
  "encoder_loop2d [] h w img_shape_list n_size_list = Inr (img_shape_list, n_size_list)"
| "encoder_loop2d (k # ks) h w img_shape_list n_size_list =
     and_then (unpack2 k) (\<lambda>(h_k, w_k).
     and_then (floordiv h h_k) (\<lambda>h'.
     and_then (floordiv w w_k) (\<lambda>w'.
       encoder_loop2d ks h' w' (img_shape_list @ [[h', w']]) (n_size_list @ [h' * w']))))"

fun encoder_loop3d ::
  "axes list \<Rightarrow> int \<Rightarrow> int \<Rightarrow> int \<Rightarrow> int list list \<Rightarrow> int list \<Rightarrow>
   error + (int list list \<times> int list)"
where
  "encoder_loop3d [] h w d img_shape_list n_size_list = Inr (img_shape_list, n_size_list)"
| "encoder_loop3d (k # ks) h w d img_shape_list n_size_list =
     and_then (unpack3 k) (\<lambda>(h_k, w_k, d_k).
     and_then (floordiv h h_k) (\<lambda>h'.
     and_then (floordiv w w_k) (\<lambda>w'.
     and_then (floordiv d d_k) (\<lambda>d'.
       encoder_loop3d ks h' w' d' (img_shape_list @ [[h', w', d']])
         (n_size_list @ [h' * w' * d'])))))"

text \<open>The result is \<open>(img_shape_list, n_size_list, img_min_shape)\<close>.\<close>

definition encoder_img_shapes ::
  "conv_op \<Rightarrow> int list \<Rightarrow> axes list \<Rightarrow> error + (int list list \<times> int list \<times> int list)"
where
  "encoder_img_shapes conv_op patch_size strides =
     (let pool_op_kernel_sizes = drop 1 strides in
      if conv_op = Conv2d then
        and_then (item patch_size 0) (\<lambda>h.
        and_then (item patch_size 1) (\<lambda>w.
        and_then (encoder_loop2d pool_op_kernel_sizes h w [[h, w]] [h * w])
          (\<lambda>(img_shape_list, n_size_list).
             Inr (img_shape_list, n_size_list, last img_shape_list))))
      else if conv_op = Conv3d then
        and_then (item patch_size 0) (\<lambda>h.
        and_then (item patch_size 1) (\<lambda>w.
        and_then (item patch_size 2) (\<lambda>d.
        and_then (encoder_loop3d pool_op_kernel_sizes h w d [[h, w, d]] [h * w * d])
          (\<lambda>(img_shape_list, n_size_list).
             Inr (img_shape_list, n_size_list, last img_shape_list)))))
      else Inl ValueError)"

text \<open>
  \<open>NexToU_Decoder.__init__\<close> repeats the computation on its own arguments
  \<open>patch_size\<close> and \<open>strides\<close> and on \<open>encoder.conv_op\<close>.
\<close>

fun decoder_loop2d ::
  "axes list \<Rightarrow> int \<Rightarrow> int \<Rightarrow> int list list \<Rightarrow> int list \<Rightarrow> error + (int list list \<times> int list)"
where
  "decoder_loop2d [] h w img_shape_list n_size_list = Inr (img_shape_list, n_size_list)"
| "decoder_loop2d (k # ks) h w img_shape_list n_size_list =
     and_then (unpack2 k) (\<lambda>(h_k, w_k).
     and_then (floordiv h h_k) (\<lambda>h'.
     and_then (floordiv w w_k) (\<lambda>w'.
       decoder_loop2d ks h' w' (img_shape_list @ [[h', w']]) (n_size_list @ [h' * w']))))"

fun decoder_loop3d ::
  "axes list \<Rightarrow> int \<Rightarrow> int \<Rightarrow> int \<Rightarrow> int list list \<Rightarrow> int list \<Rightarrow>
   error + (int list list \<times> int list)"
where
  "decoder_loop3d [] h w d img_shape_list n_size_list = Inr (img_shape_list, n_size_list)"
| "decoder_loop3d (k # ks) h w d img_shape_list n_size_list =
     and_then (unpack3 k) (\<lambda>(h_k, w_k, d_k).
     and_then (floordiv h h_k) (\<lambda>h'.
     and_then (floordiv w w_k) (\<lambda>w'.
     and_then (floordiv d d_k) (\<lambda>d'.
       decoder_loop3d ks h' w' d' (img_shape_list @ [[h', w', d']])
         (n_size_list @ [h' * w' * d'])))))"

definition decoder_img_shapes ::
  "conv_op \<Rightarrow> int list \<Rightarrow> axes list \<Rightarrow> error + (int list list \<times> int list \<times> int list)"
where
  "decoder_img_shapes encoder_conv_op patch_size strides =
     (let pool_op_kernel_sizes = drop 1 strides in
      if encoder_conv_op = Conv2d then
        and_then (item patch_size 0) (\<lambda>h.
        and_then (item patch_size 1) (\<lambda>w.
        and_then (decoder_loop2d pool_op_kernel_sizes h w [[h, w]] [h * w])
          (\<lambda>(img_shape_list, n_size_list).
             Inr (img_shape_list, n_size_list, last img_shape_list))))
      else if encoder_conv_op = Conv3d then
        and_then (item patch_size 0) (\<lambda>h.
        and_then (item patch_size 1) (\<lambda>w.
        and_then (item patch_size 2) (\<lambda>d.
        and_then (decoder_loop3d pool_op_kernel_sizes h w d [[h, w, d]] [h * w * d])
          (\<lambda>(img_shape_list, n_size_list).
             Inr (img_shape_list, n_size_list, last img_shape_list)))))
      else Inl ValueError)"

text \<open>The components of an entry, for stating what the loops compute.\<close>

definition axes_of :: "axes \<Rightarrow> int list" where
  "axes_of k = (case k of PerAxis ks \<Rightarrow> ks | Scalar s \<Rightarrow> [s])"

text \<open>
  The schedule in the words of the specification: entry 0 is the patch size, each later
  entry is the entry before it, floor-divided componentwise by the stride of its stage.
\<close>

fun spec_shape_schedule :: "int list \<Rightarrow> axes list \<Rightarrow> int list list" where
  "spec_shape_schedule p [] = [p]"
| "spec_shape_schedule p (k # ks) = p # spec_shape_schedule (map2 (div) p (axes_of k)) ks"


section \<open>The options shared by the graph blocks\<close>

text \<open>
  \<open>OptInit\<close>. \<open>pool_op_kernel_sizes_len\<close> is always a \<open>len(strides)\<close>, hence a
  natural number. The attributes \<open>img_min_shape\<close> and \<open>n_size_list\<close> do not exist
  until a constructor of encoder or decoder assigns them: \<open>None\<close> is the missing
  attribute, and reading it raises.
\<close>

record opt =
  opt_pool_op_kernel_sizes_len :: nat
  opt_conv :: string
  opt_act :: string
  opt_norm :: string
  opt_bias :: bool
  opt_dropout :: real
  opt_use_dilation :: bool
  opt_epsilon :: real
  opt_use_stochastic :: bool
  opt_drop_path :: real
  opt_blocks :: "int list"
  opt_reduce_ratios :: "int list"
  opt_img_min_shape :: "int list option"
  opt_n_size_list :: "int list option"

definition OptInit :: "real \<Rightarrow> nat \<Rightarrow> opt" where
  "OptInit drop_path_rate pool_op_kernel_sizes_len =
     \<lparr> opt_pool_op_kernel_sizes_len = pool_op_kernel_sizes_len,
       opt_conv = ''mr'',
       opt_act = ''leakyrelu'',
       opt_norm = ''instance'',
       opt_bias = True,
       opt_dropout = 0,
       opt_use_dilation = True,
       opt_epsilon = 2 / 10,
       opt_use_stochastic = True,
       opt_drop_path = drop_path_rate,
       opt_blocks = replicate pool_op_kernel_sizes_len 1,
       opt_reduce_ratios = [16, 8, 4, 2] @ replicate (pool_op_kernel_sizes_len - 4) 1,
       opt_img_min_shape = None,
       opt_n_size_list = None \<rparr>"

definition attribute :: "'a option \<Rightarrow> error + 'a" where
  "attribute a = (case a of None \<Rightarrow> Inl AttributeError | Some v \<Rightarrow> Inr v)"

section \<open>The k-nearest-neighbour parameters of the graph blocks\<close>

text \<open>\<open>min(candidates, key=...)\<close>: the first candidate with the least key.\<close>

fun min_by_key :: "('a \<Rightarrow> int) \<Rightarrow> 'a \<Rightarrow> 'a list \<Rightarrow> 'a" where
  "min_by_key key best [] = best"
| "min_by_key key best (x # xs) = min_by_key key (if key x < key best then x else best) xs"

definition k_candidate_list :: "int list" where
  "k_candidate_list = [2, 4, 8, 16, 32]"

definition closest_k :: "int \<Rightarrow> int" where
  "closest_k max_num =
     min_by_key (\<lambda>x. \<bar>x - max_num\<bar>) (hd k_candidate_list) (tl k_candidate_list)"

definition k_list_of :: "int \<Rightarrow> int \<Rightarrow> nat \<Rightarrow> int list" where
  "k_list_of min_k max_k pool_op_kernel_sizes_len =
     (if 5 \<le> pool_op_kernel_sizes_len then
        [min min_k max_k, min (min_k * 2) max_k, min (min_k * 2) max_k, min (min_k * 4) max_k,
         min (min_k * 8) max_k]
        @ replicate (pool_op_kernel_sizes_len - 5) (min (min_k * 16) max_k)
      else
        take pool_op_kernel_sizes_len
          [min min_k max_k, min (min_k * 2) max_k, min (min_k * 2) max_k, min (min_k * 4) max_k,
           min (min_k * 8) max_k])"

text \<open>\<open>max(k_list)\<close> raises on the empty list.\<close>

fun py_max :: "int list \<Rightarrow> error + int" where
  "py_max [] = Inl ValueError"
| "py_max (x # xs) = Inr (foldl max x xs)"

record knn_parameters =
  max_num :: int
  max_k :: int
  min_k :: int
  k_list :: "int list"
  max_dilation :: int
  window_size :: "int list"
  window_size_n :: int

text \<open>
  The block \<open>if conv_op == nn.Conv2d: ... elif conv_op == nn.Conv3d: ... else: raise\<close>
  that \<open>SwinGNNBlocks.__init__\<close> and \<open>PoolGNNBlocks.__init__\<close> both contain, line
  for line the same. Unpacking \<open>img_min_shape\<close> raises unless it has one entry per
  axis.
\<close>

definition knn_setup :: "conv_op \<Rightarrow> int list \<Rightarrow> nat \<Rightarrow> error + knn_parameters" where
  "knn_setup conv_op img_min_shape pool_op_kernel_sizes_len =
     (if conv_op = Conv2d then
        (case img_min_shape of
           [H_min, W_min] \<Rightarrow>
             (let max_num = H_min * W_min div 2;
                  max_k = closest_k max_num;
                  min_k = max_num div (2 * 2);
                  k_list = k_list_of min_k max_k pool_op_kernel_sizes_len
              in and_then (py_max k_list) (\<lambda>m.
                 and_then (floordiv (H_min * W_min) m) (\<lambda>max_dilation.
                   Inr \<lparr> max_num = max_num, max_k = max_k, min_k = min_k, k_list = k_list,
                         max_dilation = max_dilation, window_size = img_min_shape,
                         window_size_n = H_min * W_min \<rparr>)))
         | _ \<Rightarrow> Inl ValueError)
      else if conv_op = Conv3d then
        (case img_min_shape of
           [H_min, W_min, D_min] \<Rightarrow>
             (let max_num = H_min * W_min * D_min div 3;
                  max_k = closest_k max_num;
                  min_k = max_num div (2 * 2 * 2);
                  k_list = k_list_of min_k max_k pool_op_kernel_sizes_len
              in and_then (py_max k_list) (\<lambda>m.
                 and_then (floordiv (H_min * W_min * D_min) m) (\<lambda>max_dilation.
                   Inr \<lparr> max_num = max_num, max_k = max_k, min_k = min_k, k_list = k_list,
                         max_dilation = max_dilation, window_size = img_min_shape,
                         window_size_n = H_min * W_min * D_min \<rparr>)))
         | _ \<Rightarrow> Inl ValueError)
      else Inl NotImplementedError)"

text \<open>
  \<open>torch.linspace(0, drop_path, n_blocks)\<close> as a list: \<open>n_blocks\<close> evenly spaced
  values, the single value \<open>0\<close> for one block, an error for a negative count.
\<close>

definition linspace :: "real \<Rightarrow> real \<Rightarrow> int \<Rightarrow> error + real list" where
  "linspace a b n =
     (if n < 0 then Inl RuntimeError
      else if n = 1 then Inr [a]
      else Inr (map (\<lambda>i. a + (b - a) * real i / real_of_int (n - 1)) [0..<nat n]))"

text \<open>\<open>range(n)\<close> as a list of integers.\<close>

definition py_range :: "int \<Rightarrow> int list" where
  "py_range n = map int [0..<nat n]"

section \<open>SwinGNNBlocks and PoolGNNBlocks\<close>

text \<open>
  A block is \<open>nn.Sequential(SwinGrapher(...), FFN(...))\<close> or
  \<open>nn.Sequential(PoolGrapher(...), FFN(...))\<close>. The records hold the arguments of the
  calls that the model follows; the arguments that are passed through unread
  (\<open>norm_op\<close>, \<open>norm_op_kwargs\<close>, \<open>dropout_op\<close>) are left out.
\<close>

record swin_grapher_call =
  sg_in_channels :: int
  sg_img_shape :: "int list"
  sg_kernel_size :: int
  sg_dilation :: int
  sg_r :: int
  sg_n :: int
  sg_drop_path :: real
  sg_conv_op :: conv_op
  sg_window_size :: "int list"
  sg_shift_size :: "int list"

record pool_grapher_call =
  pg_in_channels :: int
  pg_img_shape :: "int list"
  pg_kernel_size :: int
  pg_dilation :: int
  pg_r :: int
  pg_n :: int
  pg_drop_path :: real
  pg_conv_op :: conv_op
  pg_img_min_shape :: "int list"

datatype ffn_call = FFN int int string real

text \<open>
  The body of \<open>for j in range(blocks_num_list[index])\<close> in
  \<open>SwinGNNBlocks.__init__\<close>, at \<open>idx = idx_list[j]\<close>.
\<close>

definition swin_block ::
  "int \<Rightarrow> int list \<Rightarrow> int \<Rightarrow> opt \<Rightarrow> conv_op \<Rightarrow> knn_parameters \<Rightarrow> real list \<Rightarrow> int \<Rightarrow>
   error + (swin_grapher_call \<times> ffn_call)"
where
  "swin_block channels img_shape i opt conv_op p dpr idx =
     and_then
       (if conv_op = Conv2d then
          and_then (item (window_size p) 0) (\<lambda>w0.
          and_then (item (window_size p) 1) (\<lambda>w1. Inr [w0 div 2, w1 div 2]))
        else if conv_op = Conv3d then
          and_then (item (window_size p) 0) (\<lambda>w0.
          and_then (item (window_size p) 1) (\<lambda>w1.
          and_then (item (window_size p) 2) (\<lambda>w2. Inr [w0 div 2, w1 div 2, w2 div 2])))
        else Inl NotImplementedError)
       (\<lambda>shift_size.
     and_then (item (k_list p) i) (\<lambda>k.
     and_then (item dpr idx) (\<lambda>dp.
       Inr (\<lparr> sg_in_channels = channels, sg_img_shape = img_shape, sg_kernel_size = k,
              sg_dilation = min (idx div 4 + 1) (max_dilation p), sg_r = 1,
              sg_n = window_size_n p, sg_drop_path = dp, sg_conv_op = conv_op,
              sg_window_size = window_size p, sg_shift_size = shift_size \<rparr>,
            FFN channels (channels * 4) (opt_act opt) dp))))"

fun swin_blocks_loop ::
  "int \<Rightarrow> int list \<Rightarrow> int \<Rightarrow> opt \<Rightarrow> conv_op \<Rightarrow> knn_parameters \<Rightarrow> real list \<Rightarrow> int list \<Rightarrow>
   error + (swin_grapher_call \<times> ffn_call) list"
where
  "swin_blocks_loop channels img_shape i opt conv_op p dpr [] = Inr []"
| "swin_blocks_loop channels img_shape i opt conv_op p dpr (idx # idx_list) =
     and_then (swin_block channels img_shape i opt conv_op p dpr idx) (\<lambda>block.
     and_then (swin_blocks_loop channels img_shape i opt conv_op p dpr idx_list) (\<lambda>blocks.
       Inr (block # blocks)))"

definition SwinGNNBlocks_init ::
  "int \<Rightarrow> int list \<Rightarrow> int \<Rightarrow> opt \<Rightarrow> conv_op \<Rightarrow> error + (swin_grapher_call \<times> ffn_call) list"
where
  "SwinGNNBlocks_init channels img_shape index opt conv_op =
     (let pool_op_kernel_sizes_len = opt_pool_op_kernel_sizes_len opt;
          drop_path = opt_drop_path opt;
          blocks_num_list = opt_blocks opt
      in and_then (attribute (opt_n_size_list opt)) (\<lambda>n_size_list.
         and_then (attribute (opt_img_min_shape opt)) (\<lambda>img_min_shape.
         and_then (linspace 0 drop_path (sum_list blocks_num_list)) (\<lambda>dpr.
         let sum_blocks = sum_list (slice_to blocks_num_list index) in
         and_then (item blocks_num_list index) (\<lambda>count.
         let idx_list = map (\<lambda>k. k + sum_blocks) (py_range count) in
         and_then (knn_setup conv_op img_min_shape pool_op_kernel_sizes_len) (\<lambda>p.
           swin_blocks_loop channels img_shape index opt conv_op p dpr idx_list))))))"

text \<open>The same for \<open>PoolGNNBlocks.__init__\<close>, which reads its lists at \<open>i + stage_num\<close>.\<close>

definition pool_block ::
  "int \<Rightarrow> int list \<Rightarrow> int \<Rightarrow> int \<Rightarrow> opt \<Rightarrow> conv_op \<Rightarrow> knn_parameters \<Rightarrow> int list \<Rightarrow>
   int list \<Rightarrow> real list \<Rightarrow> int \<Rightarrow> error + (pool_grapher_call \<times> ffn_call)"
where
  "pool_block channels img_shape i stage_num opt conv_op p n_size_list img_min_shape dpr idx =
     and_then
       (if conv_op = Conv2d then
          and_then (item (window_size p) 0) (\<lambda>w0.
          and_then (item (window_size p) 1) (\<lambda>w1. Inr [w0 div 2, w1 div 2]))
        else if conv_op = Conv3d then
          and_then (item (window_size p) 0) (\<lambda>w0.
          and_then (item (window_size p) 1) (\<lambda>w1.
          and_then (item (window_size p) 2) (\<lambda>w2. Inr [w0 div 2, w1 div 2, w2 div 2])))
        else Inl NotImplementedError)
       (\<lambda>shift_size.
     and_then (item (k_list p) (i + stage_num)) (\<lambda>k.
     and_then (item (opt_reduce_ratios opt) (i + stage_num)) (\<lambda>r.
     and_then (item n_size_list (i + stage_num)) (\<lambda>n.
     and_then (item dpr idx) (\<lambda>dp.
       Inr (\<lparr> pg_in_channels = channels, pg_img_shape = img_shape, pg_kernel_size = k,
              pg_dilation = min (idx div 4 + 1) (max_dilation p), pg_r = r, pg_n = n,
              pg_drop_path = dp, pg_conv_op = conv_op, pg_img_min_shape = img_min_shape \<rparr>,
            FFN channels (channels * 4) (opt_act opt) dp))))))"

fun pool_blocks_loop ::
  "int \<Rightarrow> int list \<Rightarrow> int \<Rightarrow> int \<Rightarrow> opt \<Rightarrow> conv_op \<Rightarrow> knn_parameters \<Rightarrow> int list \<Rightarrow>
   int list \<Rightarrow> real list \<Rightarrow> int list \<Rightarrow> error + (pool_grapher_call \<times> ffn_call) list"
where
  "pool_blocks_loop channels img_shape i stage_num opt conv_op p n_size_list img_min_shape dpr
     [] = Inr []"
| "pool_blocks_loop channels img_shape i stage_num opt conv_op p n_size_list img_min_shape dpr
     (idx # idx_list) =
     and_then
       (pool_block channels img_shape i stage_num opt conv_op p n_size_list img_min_shape dpr idx)
       (\<lambda>block.
     and_then
       (pool_blocks_loop channels img_shape i stage_num opt conv_op p n_size_list img_min_shape
          dpr idx_list)
       (\<lambda>blocks. Inr (block # blocks)))"

definition PoolGNNBlocks_init ::
  "int \<Rightarrow> int list \<Rightarrow> int \<Rightarrow> int \<Rightarrow> opt \<Rightarrow> conv_op \<Rightarrow>
   error + (pool_grapher_call \<times> ffn_call) list"
where
  "PoolGNNBlocks_init channels img_shape index stage_num opt conv_op =
     (let pool_op_kernel_sizes_len = opt_pool_op_kernel_sizes_len opt;
          drop_path = opt_drop_path opt;
          blocks_num_list = opt_blocks opt
      in and_then (attribute (opt_n_size_list opt)) (\<lambda>n_size_list.
         and_then (attribute (opt_img_min_shape opt)) (\<lambda>img_min_shape.
         and_then (linspace 0 drop_path (sum_list blocks_num_list)) (\<lambda>dpr.
         let sum_blocks = sum_list (slice_to blocks_num_list index) in
         and_then (item blocks_num_list index) (\<lambda>count.
         let idx_list = map (\<lambda>k. k + sum_blocks) (py_range count) in
         and_then (knn_setup conv_op img_min_shape pool_op_kernel_sizes_len) (\<lambda>p.
           pool_blocks_loop channels img_shape index stage_num opt conv_op p n_size_list
             img_min_shape dpr idx_list))))))"


section \<open>The stages of encoder and decoder\<close>

text \<open>
  Constructor arguments annotated \<open>Union[int, List[int], Tuple[int, ...]]\<close>: an integer
  is repeated once per stage. \<open>[x] * n\<close> is empty for a negative \<open>n\<close>.
\<close>

datatype ints_arg = OneInt int | IntList "int list"

datatype axes_arg = OneAxes int | AxesList "axes list"

datatype bottleneck_arg = NoBottleneck | OneBottleneck int | BottleneckList "int option list"

definition per_stage_ints :: "ints_arg \<Rightarrow> int \<Rightarrow> int list" where
  "per_stage_ints a n = (case a of OneInt v \<Rightarrow> replicate (nat n) v | IntList vs \<Rightarrow> vs)"

definition per_stage_axes :: "axes_arg \<Rightarrow> int \<Rightarrow> axes list" where
  "per_stage_axes a n = (case a of OneAxes v \<Rightarrow> replicate (nat n) (Scalar v) | AxesList vs \<Rightarrow> vs)"

definition per_stage_bottleneck :: "bottleneck_arg \<Rightarrow> int \<Rightarrow> int option list" where
  "per_stage_bottleneck a n =
     (case a of
        NoBottleneck \<Rightarrow> replicate (nat n) None
      | OneBottleneck v \<Rightarrow> replicate (nat n) (Some v)
      | BottleneckList vs \<Rightarrow> vs)"

text \<open>
  Modules of \<open>dynamic_network_architectures\<close> and \<open>torch.nn\<close> are the calls that build
  them: \<open>StackedResidualBlocks(n_blocks, conv_op, input_channels, output_channels,
  kernel_size, initial_stride, ..., bottleneck_channels)\<close>,
  \<open>StackedConvBlocks(num_convs, conv_op, input_channels, output_channels, kernel_size,
  initial_stride, ...)\<close>, a transposed convolution and a segmentation layer.
\<close>

datatype residual_blocks = StackedResidualBlocks int conv_op int int axes axes "int option"

datatype conv_blocks = StackedConvBlocks int conv_op int int axes int

datatype 'tc transpconv = Transpconv 'tc int int axes bool

datatype seg_layer = SegLayer conv_op int int

text \<open>
  The three shapes a stage can take: residual blocks alone, residual blocks followed by
  \<open>SwinGNNBlocks\<close>, residual blocks followed by \<open>PoolGNNBlocks\<close> and
  \<open>SwinGNNBlocks\<close>.
\<close>

datatype stage_body =
    Residual residual_blocks
  | ResidualSwin residual_blocks "(swin_grapher_call \<times> ffn_call) list"
  | ResidualPoolSwin residual_blocks "(pool_grapher_call \<times> ffn_call) list"
      "(swin_grapher_call \<times> ffn_call) list"

fun is_residual :: "stage_body \<Rightarrow> bool" where
  "is_residual (Residual _) = True"
| "is_residual _ = False"

fun is_residual_swin :: "stage_body \<Rightarrow> bool" where
  "is_residual_swin (ResidualSwin _ _) = True"
| "is_residual_swin _ = False"

fun is_residual_pool_swin :: "stage_body \<Rightarrow> bool" where
  "is_residual_pool_swin (ResidualPoolSwin _ _ _) = True"
| "is_residual_pool_swin _ = False"

text \<open>
  \<open>maybe_convert_scalar_to_list\<close> of \<open>dynamic_network_architectures\<close>: a scalar is
  repeated once per axis of the convolution, a sequence is returned as it is.
\<close>

definition maybe_convert_scalar_to_list :: "conv_op \<Rightarrow> axes \<Rightarrow> axes" where
  "maybe_convert_scalar_to_list conv_op i =
     (case i of
        Scalar v \<Rightarrow>
          PerAxis (replicate (if conv_op = Conv2d then 2 else if conv_op = Conv3d then 3 else 1) v)
      | PerAxis vs \<Rightarrow> PerAxis vs)"

record encoder_args =
  ea_input_channels :: int
  ea_patch_size :: "int list"
  ea_n_stages :: int
  ea_features_per_stage :: ints_arg
  ea_conv_op :: conv_op
  ea_kernel_sizes :: axes_arg
  ea_strides :: axes_arg
  ea_n_blocks_per_stage :: ints_arg
  ea_conv_bias :: bool
  ea_bottleneck_channels :: bottleneck_arg
  ea_return_skips :: bool
  ea_disable_default_stem :: bool
  ea_stem_channels :: "int option"
  ea_pool_type :: string

text \<open>The local variables of \<open>NexToU_Encoder.__init__\<close> that the stage loop reads.\<close>

record 'pool stage_inputs =
  si_conv_op :: conv_op
  si_features_per_stage :: "int list"
  si_kernel_sizes :: "axes list"
  si_strides :: "axes list"
  si_n_blocks_per_stage :: "int list"
  si_bottleneck_channels :: "int option list"
  si_pool_op :: "'pool option"
  si_img_shape_list :: "int list list"
  si_opt :: opt
  si_n_conv_stages :: int
  si_no_pool_gnn_stage_num :: int

record 'pool encoder =
  enc_opt :: opt
  enc_n_swin_gnn_stages :: int
  enc_no_pool_gnn_stage_num :: int
  enc_n_conv_stages :: int
  enc_stem :: "conv_blocks option"
  enc_stages :: "(('pool \<times> axes) option \<times> stage_body) list"
  enc_output_channels :: "int list"
  enc_strides :: "axes list"
  enc_return_skips :: bool
  enc_conv_op :: conv_op
  enc_conv_bias :: bool
  enc_kernel_sizes :: "axes list"

text \<open>
  The body of \<open>for s in range(n_stages)\<close> in \<open>NexToU_Encoder.__init__\<close>: first the
  \<open>if\<close>/\<open>elif\<close>/\<open>else\<close> that builds the stage, then the stage as a whole with
  its optional pooling in front.
\<close>

definition encoder_stage_body ::
  "'pool stage_inputs \<Rightarrow> int \<Rightarrow> int \<Rightarrow> axes \<Rightarrow> error + stage_body"
where
  "encoder_stage_body si s input_channels stride_for_conv =
     and_then (item (si_n_blocks_per_stage si) s) (\<lambda>n_blocks.
     and_then (item (si_features_per_stage si) s) (\<lambda>features.
     and_then (item (si_kernel_sizes si) s) (\<lambda>kernel_size.
     and_then (item (si_bottleneck_channels si) s) (\<lambda>bottleneck.
       if s < si_n_conv_stages si then
         Inr (Residual (StackedResidualBlocks n_blocks (si_conv_op si) input_channels features
                kernel_size stride_for_conv bottleneck))
       else if s < si_no_pool_gnn_stage_num si then
         and_then (item (si_img_shape_list si) s) (\<lambda>img_shape.
         and_then
           (SwinGNNBlocks_init features img_shape (s - si_n_conv_stages si) (si_opt si)
              (si_conv_op si))
           (\<lambda>swin.
           Inr (ResidualSwin
                  (StackedResidualBlocks (n_blocks - 1) (si_conv_op si) input_channels features
                     kernel_size stride_for_conv bottleneck)
                  swin)))
       else
         and_then (item (si_img_shape_list si) s) (\<lambda>img_shape.
         and_then
           (PoolGNNBlocks_init features img_shape (s - si_no_pool_gnn_stage_num si)
              (si_no_pool_gnn_stage_num si) (si_opt si) (si_conv_op si))
           (\<lambda>pool.
         and_then
           (SwinGNNBlocks_init features img_shape (s - si_n_conv_stages si) (si_opt si)
              (si_conv_op si))
           (\<lambda>swin.
           Inr (ResidualPoolSwin
                  (StackedResidualBlocks (n_blocks - 1) (si_conv_op si) input_channels features
                     kernel_size stride_for_conv bottleneck)
                  pool swin))))))))"

definition encoder_stage ::
  "'pool stage_inputs \<Rightarrow> int \<Rightarrow> int \<Rightarrow> error + (('pool \<times> axes) option \<times> stage_body)"
where
  "encoder_stage si s input_channels =
     and_then (if si_pool_op si = None then item (si_strides si) s else Inr (Scalar 1))
       (\<lambda>stride_for_conv.
     and_then (encoder_stage_body si s input_channels stride_for_conv) (\<lambda>stage.
       case si_pool_op si of
         None \<Rightarrow> Inr (None, stage)
       | Some pool_op \<Rightarrow>
           and_then (item (si_strides si) s) (\<lambda>stride. Inr (Some (pool_op, stride), stage))))"

fun encoder_stages_loop ::
  "'pool stage_inputs \<Rightarrow> int list \<Rightarrow> int \<Rightarrow>
   error + (('pool \<times> axes) option \<times> stage_body) list"
where
  "encoder_stages_loop si [] input_channels = Inr []"
| "encoder_stages_loop si (s # rest) input_channels =
     and_then (encoder_stage si s input_channels) (\<lambda>stage.
     and_then (item (si_features_per_stage si) s) (\<lambda>features.
     and_then (encoder_stages_loop si rest features) (\<lambda>stages. Inr (stage # stages))))"

text \<open>
  \<open>NexToU_Encoder.__init__\<close>. \<open>get_matching_pool_op\<close> belongs to
  \<open>dynamic_network_architectures\<close> and is a parameter of the model.
\<close>

definition NexToU_Encoder_init ::
  "(conv_op \<Rightarrow> string \<Rightarrow> error + 'pool) \<Rightarrow> encoder_args \<Rightarrow> error + 'pool encoder"
where
  "NexToU_Encoder_init get_matching_pool_op a =
     (let n_stages = ea_n_stages a;
          conv_op = ea_conv_op a;
          kernel_sizes = per_stage_axes (ea_kernel_sizes a) n_stages;
          features_per_stage = per_stage_ints (ea_features_per_stage a) n_stages;
          n_blocks_per_stage = per_stage_ints (ea_n_blocks_per_stage a) n_stages;
          strides = per_stage_axes (ea_strides a) n_stages;
          bottleneck_channels = per_stage_bottleneck (ea_bottleneck_channels a) n_stages
      in
      if int (length bottleneck_channels) \<noteq> n_stages then Inl AssertionError
      else if int (length kernel_sizes) \<noteq> n_stages then Inl AssertionError
      else if int (length n_blocks_per_stage) \<noteq> n_stages then Inl AssertionError
      else if int (length features_per_stage) \<noteq> n_stages then Inl AssertionError
      else if int (length strides) \<noteq> n_stages then Inl AssertionError
      else
        and_then
          (if ea_pool_type a \<noteq> ''conv''
           then and_then (get_matching_pool_op conv_op (ea_pool_type a)) (\<lambda>p. Inr (Some p))
           else Inr None)
          (\<lambda>pool_op.
        and_then (encoder_img_shapes conv_op (ea_patch_size a) strides)
          (\<lambda>(img_shape_list, n_size_list, img_min_shape).
        let opt = (OptInit 0 (length strides)) \<lparr> opt_img_min_shape := Some img_min_shape \<rparr>;
            n_swin_gnn_stages = 0;
            no_pool_gnn_stage_num = n_stages - 4;
            n_conv_stages = no_pool_gnn_stage_num - n_swin_gnn_stages;
            opt = opt \<lparr> opt_n_size_list := Some n_size_list \<rparr>
        in
        and_then
          (if \<not> ea_disable_default_stem a then
             and_then
               (case ea_stem_channels a of
                  None \<Rightarrow> item features_per_stage 0
                | Some c \<Rightarrow> Inr c)
               (\<lambda>stem_channels.
             and_then (item kernel_sizes 0) (\<lambda>kernel_size.
               Inr (Some (StackedConvBlocks 1 conv_op (ea_input_channels a) stem_channels
                            kernel_size 1),
                    stem_channels)))
           else Inr (None, ea_input_channels a))
          (\<lambda>(stem, input_channels).
        and_then
          (encoder_stages_loop
             \<lparr> si_conv_op = conv_op, si_features_per_stage = features_per_stage,
               si_kernel_sizes = kernel_sizes, si_strides = strides,
               si_n_blocks_per_stage = n_blocks_per_stage,
               si_bottleneck_channels = bottleneck_channels, si_pool_op = pool_op,
               si_img_shape_list = img_shape_list, si_opt = opt,
               si_n_conv_stages = n_conv_stages,
               si_no_pool_gnn_stage_num = no_pool_gnn_stage_num \<rparr>
             (py_range n_stages) input_channels)
          (\<lambda>stages.
          Inr \<lparr> enc_opt = opt, enc_n_swin_gnn_stages = n_swin_gnn_stages,
                enc_no_pool_gnn_stage_num = no_pool_gnn_stage_num,
                enc_n_conv_stages = n_conv_stages, enc_stem = stem, enc_stages = stages,
                enc_output_channels = features_per_stage,
                enc_strides = map (maybe_convert_scalar_to_list conv_op) strides,
                enc_return_skips = ea_return_skips a, enc_conv_op = conv_op,
                enc_conv_bias = ea_conv_bias a, enc_kernel_sizes = kernel_sizes \<rparr>)))))"


record 'pool decoder_args =
  da_encoder :: "'pool encoder"
  da_patch_size :: "int list"
  da_strides :: axes_arg
  da_num_classes :: int
  da_n_conv_per_stage :: ints_arg
  da_deep_supervision :: bool

text \<open>The local variables of \<open>NexToU_Decoder.__init__\<close> that the stage loop reads.\<close>

record ('pool, 'tc) decoder_inputs =
  di_encoder :: "'pool encoder"
  di_n_stages_encoder :: int
  di_transpconv_op :: 'tc
  di_num_classes :: int
  di_n_conv_per_stage :: "int list"
  di_img_shape_list :: "int list list"
  di_opt :: opt
  di_n_conv_stages :: int
  di_no_pool_gnn_stage_num :: int

record ('pool, 'tc) decoder =
  dec_deep_supervision :: bool
  dec_encoder :: "'pool encoder"
  dec_num_classes :: int
  dec_opt :: opt
  dec_n_swin_gnn_stages :: int
  dec_no_pool_gnn_stage_num :: int
  dec_n_conv_stages :: int
  dec_stages :: "stage_body list"
  dec_transpconvs :: "'tc transpconv list"
  dec_seg_layers :: "seg_layer list"

text \<open>
  The body of \<open>for s in range(1, n_stages_encoder)\<close> in
  \<open>NexToU_Decoder.__init__\<close>: the \<open>if\<close>/\<open>elif\<close>/\<open>else\<close> that builds the
  stage, and the stage with its transposed convolution and its segmentation layer.
\<close>

definition decoder_stage_body ::
  "('pool, 'tc) decoder_inputs \<Rightarrow> int \<Rightarrow> int \<Rightarrow> error + stage_body"
where
  "decoder_stage_body di s input_features_skip =
     (let encoder = di_encoder di;
          conv_op = enc_conv_op encoder;
          n_stages_encoder = di_n_stages_encoder di
      in
      and_then (item (di_n_conv_per_stage di) (s - 1)) (\<lambda>n_conv.
      and_then (item (enc_kernel_sizes encoder) (- (s + 1))) (\<lambda>kernel_size.
        if s < n_stages_encoder - di_no_pool_gnn_stage_num di then
          and_then (item (di_img_shape_list di) (n_stages_encoder - (s + 1))) (\<lambda>img_shape.
          and_then
            (PoolGNNBlocks_init input_features_skip img_shape
               (n_stages_encoder - di_no_pool_gnn_stage_num di - (s + 1))
               (di_no_pool_gnn_stage_num di) (di_opt di) conv_op)
            (\<lambda>pool.
          and_then
            (SwinGNNBlocks_init input_features_skip img_shape
               (n_stages_encoder - di_n_conv_stages di - (s + 1)) (di_opt di) conv_op)
            (\<lambda>swin.
            Inr (ResidualPoolSwin
                   (StackedResidualBlocks (n_conv - 1) conv_op (2 * input_features_skip)
                      input_features_skip kernel_size (Scalar 1) None)
                   pool swin))))
        else if s < n_stages_encoder - di_n_conv_stages di then
          and_then (item (di_img_shape_list di) (n_stages_encoder - (s + 1))) (\<lambda>img_shape.
          and_then
            (SwinGNNBlocks_init input_features_skip img_shape
               (n_stages_encoder - di_n_conv_stages di - (s + 1)) (di_opt di) conv_op)
            (\<lambda>swin.
            Inr (ResidualSwin
                   (StackedResidualBlocks (n_conv - 1) conv_op (2 * input_features_skip)
                      input_features_skip kernel_size (Scalar 1) None)
                   swin)))
        else
          Inr (Residual
                 (StackedResidualBlocks n_conv conv_op (2 * input_features_skip)
                    input_features_skip kernel_size (Scalar 1) None)))))"

definition decoder_stage ::
  "('pool, 'tc) decoder_inputs \<Rightarrow> int \<Rightarrow> error + ('tc transpconv \<times> stage_body \<times> seg_layer)"
where
  "decoder_stage di s =
     (let encoder = di_encoder di in
      and_then (item (enc_output_channels encoder) (- s)) (\<lambda>input_features_below.
      and_then (item (enc_output_channels encoder) (- (s + 1))) (\<lambda>input_features_skip.
      and_then (item (enc_strides encoder) (- s)) (\<lambda>stride_for_transpconv.
      and_then (decoder_stage_body di s input_features_skip) (\<lambda>stage.
        Inr (Transpconv (di_transpconv_op di) input_features_below input_features_skip
               stride_for_transpconv (enc_conv_bias encoder),
             stage,
             SegLayer (enc_conv_op encoder) input_features_skip (di_num_classes di)))))))"

fun decoder_stages_loop ::
  "('pool, 'tc) decoder_inputs \<Rightarrow> int list \<Rightarrow>
   error + (stage_body list \<times> 'tc transpconv list \<times> seg_layer list)"
where
  "decoder_stages_loop di [] = Inr ([], [], [])"
| "decoder_stages_loop di (s # rest) =
     and_then (decoder_stage di s) (\<lambda>(transpconv, stage, seg_layer).
     and_then (decoder_stages_loop di rest) (\<lambda>(stages, transpconvs, seg_layers).
       Inr (stage # stages, transpconv # transpconvs, seg_layer # seg_layers)))"

text \<open>
  \<open>NexToU_Decoder.__init__\<close>. \<open>get_matching_convtransp\<close> belongs to
  \<open>dynamic_network_architectures\<close> and is a parameter of the model. An integer for
  \<open>strides\<close> cannot be sliced.
\<close>

definition NexToU_Decoder_init ::
  "(conv_op \<Rightarrow> error + 'tc) \<Rightarrow> 'pool decoder_args \<Rightarrow> error + ('pool, 'tc) decoder"
where
  "NexToU_Decoder_init get_matching_convtransp d =
     (let encoder = da_encoder d;
          n_stages_encoder = int (length (enc_output_channels encoder));
          n_conv_per_stage = per_stage_ints (da_n_conv_per_stage d) (n_stages_encoder - 1)
      in
      if int (length n_conv_per_stage) \<noteq> n_stages_encoder - 1 then Inl AssertionError
      else
        and_then (get_matching_convtransp (enc_conv_op encoder)) (\<lambda>transpconv_op.
        and_then (case da_strides d of OneAxes v \<Rightarrow> Inl TypeError | AxesList vs \<Rightarrow> Inr vs)
          (\<lambda>strides.
        and_then (decoder_img_shapes (enc_conv_op encoder) (da_patch_size d) strides)
          (\<lambda>(img_shape_list, n_size_list, img_min_shape).
        let opt = (OptInit 0 (length strides)) \<lparr> opt_img_min_shape := Some img_min_shape \<rparr>;
            n_swin_gnn_stages = 0;
            no_pool_gnn_stage_num = n_stages_encoder - 4;
            n_conv_stages = no_pool_gnn_stage_num - n_swin_gnn_stages;
            opt = opt \<lparr> opt_n_size_list := Some n_size_list \<rparr>
        in
        and_then
          (decoder_stages_loop
             \<lparr> di_encoder = encoder, di_n_stages_encoder = n_stages_encoder,
               di_transpconv_op = transpconv_op, di_num_classes = da_num_classes d,
               di_n_conv_per_stage = n_conv_per_stage, di_img_shape_list = img_shape_list,
               di_opt = opt, di_n_conv_stages = n_conv_stages,
               di_no_pool_gnn_stage_num = no_pool_gnn_stage_num \<rparr>
             (map int [1..<nat n_stages_encoder]))
          (\<lambda>(stages, transpconvs, seg_layers).
          Inr \<lparr> dec_deep_supervision = da_deep_supervision d, dec_encoder = encoder,
                dec_num_classes = da_num_classes d, dec_opt = opt,
                dec_n_swin_gnn_stages = n_swin_gnn_stages,
                dec_no_pool_gnn_stage_num = no_pool_gnn_stage_num,
                dec_n_conv_stages = n_conv_stages, dec_stages = stages,
                dec_transpconvs = transpconvs, dec_seg_layers = seg_layers \<rparr>)))))"

text \<open>
  A five-stage 2D configuration on a patch of 64 by 64, and a decoder on an encoder
  object of that configuration (the decoder reads \<open>output_channels\<close>,
  \<open>strides\<close>, \<open>kernel_sizes\<close>, \<open>conv_op\<close> and \<open>conv_bias\<close> of its encoder).
\<close>

definition example_encoder_args :: encoder_args where
  "example_encoder_args =
     \<lparr> ea_input_channels = 1, ea_patch_size = [64, 64], ea_n_stages = 5,
       ea_features_per_stage = IntList [32, 64, 128, 256, 512], ea_conv_op = Conv2d,
       ea_kernel_sizes = OneAxes 3,
       ea_strides = AxesList [PerAxis [1, 1], PerAxis [2, 2], PerAxis [2, 2], PerAxis [2, 2],
         PerAxis [2, 2]],
       ea_n_blocks_per_stage = OneInt 2, ea_conv_bias = True,
       ea_bottleneck_channels = NoBottleneck, ea_return_skips = True,
       ea_disable_default_stem = False, ea_stem_channels = None, ea_pool_type = ''conv'' \<rparr>"

definition example_decoder_args :: "unit decoder_args" where
  "example_decoder_args =
     \<lparr> da_encoder =
         \<lparr> enc_opt = OptInit 0 5, enc_n_swin_gnn_stages = 0, enc_no_pool_gnn_stage_num = 1,
           enc_n_conv_stages = 1, enc_stem = None, enc_stages = [],
           enc_output_channels = [32, 64, 128, 256, 512],
           enc_strides = [PerAxis [1, 1], PerAxis [2, 2], PerAxis [2, 2], PerAxis [2, 2],
             PerAxis [2, 2]],
           enc_return_skips = True, enc_conv_op = Conv2d, enc_conv_bias = True,
           enc_kernel_sizes = [Scalar 3, Scalar 3, Scalar 3, Scalar 3, Scalar 3] \<rparr>,
       da_patch_size = [64, 64],
       da_strides = AxesList [PerAxis [1, 1], PerAxis [2, 2], PerAxis [2, 2], PerAxis [2, 2],
         PerAxis [2, 2]],
       da_num_classes = 2, da_n_conv_per_stage = OneInt 2, da_deep_supervision = True \<rparr>"

section \<open>Pooled graph convolution\<close>

text \<open>
  \<open>PoolDyGraphConv.__init__\<close>. The constructor of the base class \<open>GraphConv\<close>
  accepts the convolution type \<open>'mr'\<close> only. The two accumulation loops are folds:
  \<open>n\<close> is the product of \<open>img_shape\<close>, \<open>n_small\<close> multiplies every entry of
  \<open>img_min_shape\<close> by 4. An argument left at its default \<open>None\<close> cannot be
  iterated. The graph builder and the layers inside \<open>MRConv\<close> are not part of the
  record.
\<close>

record pool_dy_graph_conv =
  gc_k :: int
  gc_d :: int
  gc_r :: int
  gc_conv_op :: conv_op
  gc_pool_size :: "int list"

definition PoolDyGraphConv_init ::
  "int \<Rightarrow> int \<Rightarrow> int \<Rightarrow> int \<Rightarrow> string \<Rightarrow> int \<Rightarrow> conv_op \<Rightarrow> int list option \<Rightarrow>
   int list option \<Rightarrow> error + pool_dy_graph_conv"
where
  "PoolDyGraphConv_init in_channels out_channels kernel_size dilation conv r conv_op img_shape
     img_min_shape =
     (if conv \<noteq> ''mr'' then Inl NotImplementedError
      else
        (case img_shape of
           None \<Rightarrow> Inl TypeError
         | Some img_shape \<Rightarrow>
             (let n = foldl (\<lambda>n h. n * h) 1 img_shape in
              case img_min_shape of
                None \<Rightarrow> Inl TypeError
              | Some img_min_shape \<Rightarrow>
                  (let n_small = foldl (\<lambda>n_small h_small. n_small * h_small * 4) 1 img_min_shape;
                       pool_size =
                         (if n > n_small
                          then map (\<lambda>h. if h mod 2 = 0 then 2 else 1) img_shape
                          else map (\<lambda>h. 1) img_shape)
                   in
                   if conv_op = Conv2d \<or> conv_op = Conv3d then
                     Inr \<lparr> gc_k = kernel_size, gc_d = dilation, gc_r = r, gc_conv_op = conv_op,
                           gc_pool_size = pool_size \<rparr>
                   else Inl NotImplementedError))))"

text \<open>
  \<open>PoolGrapher.__init__\<close>. It builds its \<open>PoolDyGraphConv\<close> with twice the input
  channels as output, repeats the computation of \<open>pool_size\<close>, and divides \<open>n\<close> by
  the product of \<open>pool_size\<close>. The relative position embedding comes from
  \<open>pos_embed.py\<close> and \<open>F.interpolate\<close>; \<open>relative_pos_embed\<close> stands for the two
  together and is a parameter, called with the size \<open>(n, n // r ** d)\<close>.
\<close>

record 't pool_grapher =
  gr_channels :: int
  gr_r :: int
  gr_conv_op :: conv_op
  gr_img_shape :: "int list"
  gr_graph_conv :: pool_dy_graph_conv
  gr_pool_size :: "int list"
  gr_n :: int
  gr_relative_pos :: "'t option"

definition PoolGrapher_init ::
  "(conv_op \<Rightarrow> int \<Rightarrow> int \<Rightarrow> int \<times> int \<Rightarrow> error + 't) \<Rightarrow>
   int \<Rightarrow> int list \<Rightarrow> int \<Rightarrow> int \<Rightarrow> string \<Rightarrow> int \<Rightarrow> bool \<Rightarrow> conv_op \<Rightarrow> int list option \<Rightarrow>
   error + 't pool_grapher"
where
  "PoolGrapher_init relative_pos_embed in_channels img_shape kernel_size dilation conv r
     relative_pos conv_op img_min_shape =
     and_then
       (PoolDyGraphConv_init in_channels (in_channels * 2) kernel_size dilation conv r conv_op
          (Some img_shape) img_min_shape)
       (\<lambda>graph_conv.
     let n = foldl (\<lambda>n h. n * h) 1 img_shape in
     case img_min_shape of
       None \<Rightarrow> Inl TypeError
     | Some img_min_shape \<Rightarrow>
         (let n_small = foldl (\<lambda>n_small h_small. n_small * h_small * 4) 1 img_min_shape;
              pool_size =
                (if n > n_small
                 then map (\<lambda>h. if h mod 2 = 0 then 2 else 1) img_shape
                 else map (\<lambda>h. 1) img_shape);
              p_num = foldl (\<lambda>p_num p. p_num * p) 1 pool_size
          in
          and_then (floordiv n p_num) (\<lambda>n.
          and_then
            (if relative_pos then
               (if conv_op = Conv2d then
                  and_then (floordiv n (r * r)) (\<lambda>m.
                  and_then (relative_pos_embed conv_op in_channels n (n, m)) (\<lambda>t. Inr (Some t)))
                else if conv_op = Conv3d then
                  and_then (floordiv n (r * r * r)) (\<lambda>m.
                  and_then (relative_pos_embed conv_op in_channels n (n, m)) (\<lambda>t. Inr (Some t)))
                else Inl NotImplementedError)
             else Inr None)
            (\<lambda>relative_pos_tensor.
            Inr \<lparr> gr_channels = in_channels, gr_r = r, gr_conv_op = conv_op,
                  gr_img_shape = img_shape, gr_graph_conv = graph_conv,
                  gr_pool_size = pool_size, gr_n = n,
                  gr_relative_pos = relative_pos_tensor \<rparr>))))"

subsection \<open>The forward pass on tensor shapes\<close>

text \<open>
  A tensor is followed by its shape only. The operations of \<open>torch\<close> are their
  documented shape arithmetic; each raises \<open>RuntimeError\<close> on a shape it rejects.
  \<open>x.reshape(...)\<close> keeps the number of elements and infers at most one entry
  written \<open>-1\<close>.
\<close>

definition reshape :: "int list \<Rightarrow> int list \<Rightarrow> error + int list" where
  "reshape shape target =
     (let known = prod_list (filter (\<lambda>t. t \<noteq> - 1) target)
      in
      if \<exists>t\<in>set target. t < - 1 then Inl RuntimeError
      else if count_list target (- 1) = 0 then
        (if known = prod_list shape then Inr target else Inl RuntimeError)
      else if count_list target (- 1) = 1 then
        (if known = 0 \<or> prod_list shape mod known \<noteq> 0 then Inl RuntimeError
         else Inr (map (\<lambda>t. if t = - 1 then prod_list shape div known else t) target))
      else Inl RuntimeError)"

text \<open>
  \<open>nn.MaxPoolNd(pool_size, stride=pool_size, return_indices=True)\<close> and
  \<open>F.avg_poolNd(x, r, r)\<close>: a window of \<open>p\<close> moved by \<open>p\<close>, without padding, over
  each of the \<open>dims\<close> spatial axes of a batched input; \<open>floor((h - p) / p) + 1\<close>
  positions per axis. The indices of the maximum have the shape of the output.
\<close>

definition pool_shape :: "nat \<Rightarrow> int list \<Rightarrow> int list \<Rightarrow> error + int list" where
  "pool_shape dims ksize x =
     (if length x = dims + 2 \<and> length ksize = dims \<and>
         (\<forall>(h, p)\<in>set (zip (drop 2 x) ksize). 1 \<le> p \<and> p \<le> h)
      then Inr (take 2 x @ map2 (\<lambda>h p. (h - p) div p + 1) (drop 2 x) ksize)
      else Inl RuntimeError)"

text \<open>
  \<open>nn.MaxUnpoolNd(pool_size, stride=pool_size)\<close> on a pooled tensor and indices of the
  same shape: \<open>(h - 1) * p + p\<close> positions per axis.
\<close>

definition max_unpool_shape :: "nat \<Rightarrow> int list \<Rightarrow> int list \<Rightarrow> int list \<Rightarrow> error + int list"
where
  "max_unpool_shape dims ksize x indices =
     (if length x = dims + 2 \<and> length ksize = dims \<and> indices = x \<and>
         (\<forall>p\<in>set ksize. 1 \<le> p)
      then Inr (take 2 x @ map2 (\<lambda>h p. (h - 1) * p + p) (drop 2 x) ksize)
      else Inl RuntimeError)"

text \<open>\<open>torch.cat((indices, indices), 1)\<close> doubles the channel axis.\<close>

definition cat_channels :: "int list \<Rightarrow> int list \<Rightarrow> error + int list" where
  "cat_channels a b =
     (if 2 \<le> length a \<and> length a = length b \<and> a[1 := 0] = b[1 := 0]
      then Inr (a[1 := a ! 1 + b ! 1])
      else Inl RuntimeError)"

text \<open>
  \<open>PoolDyGraphConv.forward\<close>. \<open>dilated_knn_graph\<close> (from \<open>torch_edge.py\<close>) and the
  forward pass of \<open>GraphConv\<close> (whose layers come from \<open>torch_nn.py\<close>) are
  parameters: the graph builder receives the pooled nodes \<open>x\<close>, the reduced nodes
  \<open>y\<close> and the relative positions; the convolution receives \<open>x\<close>, the edges and
  \<open>y\<close>, and gives the shape of its output.
\<close>

definition PoolDyGraphConv_forward ::
  "(int list \<Rightarrow> int list option \<Rightarrow> 'rp \<Rightarrow> error + 'e) \<Rightarrow>
   (int list \<Rightarrow> 'e \<Rightarrow> int list option \<Rightarrow> error + int list) \<Rightarrow>
   pool_dy_graph_conv \<Rightarrow> int list \<Rightarrow> 'rp \<Rightarrow> error + int list"
where
  "PoolDyGraphConv_forward dilated_knn_graph graph_conv_forward self x relative_pos =
     and_then
       (if gc_conv_op self = Conv2d then
          (case x of [B, C, H, W] \<Rightarrow> Inr (2, B, C, [H, W]) | _ \<Rightarrow> Inl ValueError)
        else if gc_conv_op self = Conv3d then
          (case x of [B, C, S, H, W] \<Rightarrow> Inr (3, B, C, [S, H, W]) | _ \<Rightarrow> Inl ValueError)
        else Inl NotImplementedError)
       (\<lambda>(dims, B, C, spatial).
     and_then (pool_shape dims (gc_pool_size self) x) (\<lambda>x.
     let indices = x in
     and_then
       (if gc_r self > 1 then
          and_then (pool_shape dims (replicate dims (gc_r self)) x) (\<lambda>y.
          and_then (reshape y [B, C, - 1, 1]) (\<lambda>y. Inr (Some y)))
        else Inr None)
       (\<lambda>y.
     and_then (reshape x [B, C, - 1, 1]) (\<lambda>x.
     and_then (reshape indices [B, C, - 1, 1]) (\<lambda>indices.
     and_then (dilated_knn_graph x y relative_pos) (\<lambda>edge_index.
     and_then (graph_conv_forward x edge_index y) (\<lambda>x.
     and_then (cat_channels indices indices) (\<lambda>indices_cat.
     and_then
       (if dims = 2 then
          and_then (item (gc_pool_size self) 0) (\<lambda>p0.
          and_then (item (gc_pool_size self) 1) (\<lambda>p1.
          and_then (floordiv (spatial ! 0) p0) (\<lambda>H_pool.
          and_then (floordiv (spatial ! 1) p1) (\<lambda>W_pool. Inr [H_pool, W_pool]))))
        else
          and_then (item (gc_pool_size self) 0) (\<lambda>p0.
          and_then (item (gc_pool_size self) 1) (\<lambda>p1.
          and_then (item (gc_pool_size self) 2) (\<lambda>p2.
          and_then (floordiv (spatial ! 0) p0) (\<lambda>S_pool.
          and_then (floordiv (spatial ! 1) p1) (\<lambda>H_pool.
          and_then (floordiv (spatial ! 2) p2) (\<lambda>W_pool. Inr [S_pool, H_pool, W_pool])))))))
       (\<lambda>pooled.
     and_then (reshape x ([B, - 1] @ pooled)) (\<lambda>x.
     and_then (reshape indices_cat ([B, - 1] @ pooled)) (\<lambda>indices_cat.
       max_unpool_shape dims (gc_pool_size self) x indices_cat)))))))))))"

text \<open>
  The pooling rule in the words of the specification: 2 on an even axis when the product
  of \<open>img_shape\<close> exceeds the product of \<open>img_min_shape\<close> times \<open>4 ^ d\<close>, and 1
  otherwise.
\<close>

definition spec_pool_size :: "int list \<Rightarrow> int list \<Rightarrow> int list" where
  "spec_pool_size img_shape img_min_shape =
     map (\<lambda>h. if prod_list img_shape > prod_list img_min_shape * 4 ^ length img_min_shape \<and>
                  even h then 2 else 1) img_shape"

section \<open>Relative position embeddings\<close>

text \<open>
  \<open>_get_relative_pos\<close> of \<open>Grapher\<close>, \<open>SwinGrapher\<close> and \<open>PoolGrapher\<close>. The
  method reads \<open>self.conv_op\<close>, \<open>self.n\<close> and \<open>self.r\<close>. The embedding is an
  optional tensor of some type \<open>'t\<close>; \<open>interpolate t (N, M)\<close> stands for
  \<open>F.interpolate(t.unsqueeze(0), size=(N, M), mode="bicubic").squeeze(0)\<close>, which
  belongs to \<open>torch\<close> and may raise. Unpacking \<open>size_tuple\<close> raises unless it has one
  entry per axis.
\<close>

record grapher =
  g_channels :: int
  g_n :: int
  g_r :: int
  g_conv_op :: conv_op

record swin_grapher =
  sw_channels :: int
  sw_r :: int
  sw_conv_op :: conv_op
  sw_img_shape :: "int list"
  sw_window_size :: "int list"
  sw_shift_size :: "int list"
  sw_n :: int

definition Grapher_get_relative_pos ::
  "('t \<Rightarrow> int \<times> int \<Rightarrow> error + 't) \<Rightarrow> grapher \<Rightarrow> 't option \<Rightarrow> int list \<Rightarrow>
   error + 't option"
where
  "Grapher_get_relative_pos interpolate self relative_pos size_tuple =
     (if g_conv_op self = Conv2d then
        (case size_tuple of
           [H, W] \<Rightarrow>
             (case relative_pos of
                None \<Rightarrow> Inr relative_pos
              | Some t \<Rightarrow>
                  if H * W = g_n self then Inr relative_pos
                  else
                    (let N = H * W in
                     and_then (floordiv N (g_r self * g_r self)) (\<lambda>N_reduced.
                     and_then (interpolate t (N, N_reduced)) (\<lambda>t'. Inr (Some t')))))
         | _ \<Rightarrow> Inl ValueError)
      else if g_conv_op self = Conv3d then
        (case size_tuple of
           [H, W, D] \<Rightarrow>
             (case relative_pos of
                None \<Rightarrow> Inr relative_pos
              | Some t \<Rightarrow>
                  if H * W * D = g_n self then Inr relative_pos
                  else
                    (let N = H * W * D in
                     and_then (floordiv N (g_r self * g_r self * g_r self)) (\<lambda>N_reduced.
                     and_then (interpolate t (N, N_reduced)) (\<lambda>t'. Inr (Some t')))))
         | _ \<Rightarrow> Inl ValueError)
      else Inl NotImplementedError)"

definition SwinGrapher_get_relative_pos ::
  "('t \<Rightarrow> int \<times> int \<Rightarrow> error + 't) \<Rightarrow> swin_grapher \<Rightarrow> 't option \<Rightarrow> int list \<Rightarrow>
   error + 't option"
where
  "SwinGrapher_get_relative_pos interpolate self relative_pos window_size_tuple =
     (if sw_conv_op self = Conv2d then
        (case window_size_tuple of
           [H, W] \<Rightarrow>
             (case relative_pos of
                None \<Rightarrow> Inr relative_pos
              | Some t \<Rightarrow>
                  if H * W = sw_n self then Inr relative_pos
                  else
                    (let N = H * W in
                     and_then (floordiv N (sw_r self * sw_r self)) (\<lambda>N_reduced.
                     and_then (interpolate t (N, N_reduced)) (\<lambda>t'. Inr (Some t')))))
         | _ \<Rightarrow> Inl ValueError)
      else if sw_conv_op self = Conv3d then
        (case window_size_tuple of
           [S, H, W] \<Rightarrow>
             (case relative_pos of
                None \<Rightarrow> Inr relative_pos
              | Some t \<Rightarrow>
                  if S * H * W = sw_n self then Inr relative_pos
                  else
                    (let N = S * H * W in
                     and_then (floordiv N (sw_r self * sw_r self * sw_r self)) (\<lambda>N_reduced.
                     and_then (interpolate t (N, N_reduced)) (\<lambda>t'. Inr (Some t')))))
         | _ \<Rightarrow> Inl ValueError)
      else Inl NotImplementedError)"

definition PoolGrapher_get_relative_pos ::
  "('t \<Rightarrow> int \<times> int \<Rightarrow> error + 't) \<Rightarrow> 'u pool_grapher \<Rightarrow> 't option \<Rightarrow> int list \<Rightarrow>
   error + 't option"
where
  "PoolGrapher_get_relative_pos interpolate self relative_pos size_tuple =
     (if gr_conv_op self = Conv2d then
        (case size_tuple of
           [H, W] \<Rightarrow>
             (case relative_pos of
                None \<Rightarrow> Inr relative_pos
              | Some t \<Rightarrow>
                  if H * W = gr_n self then Inr relative_pos
                  else
                    (let N = H * W in
                     and_then (floordiv N (gr_r self * gr_r self)) (\<lambda>N_reduced.
                     and_then (interpolate t (N, N_reduced)) (\<lambda>t'. Inr (Some t')))))
         | _ \<Rightarrow> Inl ValueError)
      else if gr_conv_op self = Conv3d then
        (case size_tuple of
           [S, H, W] \<Rightarrow>
             (case relative_pos of
                None \<Rightarrow> Inr relative_pos
              | Some t \<Rightarrow>
                  if S * H * W = gr_n self then Inr relative_pos
                  else
                    (let N = S * H * W in
                     and_then (floordiv N (gr_r self * gr_r self * gr_r self)) (\<lambda>N_reduced.
                     and_then (interpolate t (N, N_reduced)) (\<lambda>t'. Inr (Some t')))))
         | _ \<Rightarrow> Inl ValueError)
      else Inl NotImplementedError)"

text \<open>
  The method in the words of the specification, for a convolution of \<open>d\<close> axes and a
  size tuple of \<open>d\<close> entries: unchanged when the embedding is \<open>None\<close> or the product
  of the sizes is \<open>n\<close>, otherwise interpolated to \<open>(N, N // r ** d)\<close>.
\<close>

definition spec_relative_pos ::
  "('t \<Rightarrow> int \<times> int \<Rightarrow> error + 't) \<Rightarrow> int \<Rightarrow> int \<Rightarrow> nat \<Rightarrow> 't option \<Rightarrow> int list \<Rightarrow>
   error + 't option"
where
  "spec_relative_pos interpolate n r d relative_pos size_tuple =
     (case relative_pos of
        None \<Rightarrow> Inr None
      | Some t \<Rightarrow>
          if prod_list size_tuple = n then Inr (Some t)
          else
            and_then (floordiv (prod_list size_tuple) (r ^ d)) (\<lambda>N_reduced.
            and_then (interpolate t (prod_list size_tuple, N_reduced)) (\<lambda>t'. Inr (Some t'))))"

section \<open>The trainer's network factory\<close>

text \<open>
  \<open>nnUNetTrainer_NexToU.build_network_architecture\<close>. The network classes are values;
  \<open>mapping\<close> and \<open>kwargs\<close> are the two dictionaries of the method, in the order of
  their keys. A failure of the method is either the \<open>AssertionError\<close> of its own
  membership assertion or an exception raised by something it calls.
\<close>

datatype network_class = PlainConvUNet | ResidualEncoderUNet | NexToU

datatype failure = ArchitectureAssertion | Raised error

definition raising :: "error + 'a \<Rightarrow> (failure + 'a)" where
  "raising r = (case r of Inl e \<Rightarrow> Inl (Raised e) | Inr v \<Rightarrow> Inr v)"

definition then_do :: "failure + 'a \<Rightarrow> ('a \<Rightarrow> failure + 'b) \<Rightarrow> failure + 'b" where
  "then_do r f = (case r of Inl e \<Rightarrow> Inl e | Inr v \<Rightarrow> f v)"

text \<open>\<open>d[key]\<close> on a dictionary raises \<open>KeyError\<close> for a missing key.\<close>

definition lookup :: "(string \<times> 'v) list \<Rightarrow> string \<Rightarrow> error + 'v" where
  "lookup d key = (case map_of d key of None \<Rightarrow> Inl KeyError | Some v \<Rightarrow> Inr v)"

definition mapping :: "(string \<times> network_class) list" where
  "mapping =
     [(''PlainConvUNet'', PlainConvUNet),
      (''ResidualEncoderUNet'', ResidualEncoderUNet),
      (''NexToU'', NexToU)]"

record 'norm arch_kwargs =
  kw_conv_bias :: bool
  kw_norm_op :: 'norm
  kw_norm_op_eps :: real
  kw_norm_op_affine :: bool
  kw_nonlin :: string
  kw_nonlin_inplace :: bool

text \<open>The attributes of \<open>self.configuration_manager\<close> that the method reads.\<close>

record configuration_manager =
  cm_conv_kernel_sizes :: "int list list"
  cm_patch_size :: "int list"
  cm_n_stages :: int
  cm_UNet_base_num_features :: int
  cm_unet_max_num_features :: int
  cm_pool_op_kernel_sizes :: "axes list"
  cm_n_blocks_per_stage :: "int list"
  cm_n_conv_per_stage_decoder :: "int list"

text \<open>The keyword arguments of the call \<open>network_class(...)\<close>.\<close>

record 'norm network_call =
  nc_input_channels :: int
  nc_patch_size :: "int list"
  nc_n_stages :: int
  nc_features_per_stage :: "int list"
  nc_conv_op :: conv_op
  nc_kernel_sizes :: "int list list"
  nc_strides :: "axes list"
  nc_num_classes :: int
  nc_deep_supervision :: bool
  nc_n_blocks_per_stage :: "int list"
  nc_n_blocks_per_stage_decoder :: "int list"
  nc_kwargs :: "'norm arch_kwargs"

text \<open>
  What the method calls outside this file: \<open>convert_dim_to_conv_op\<close> and
  \<open>get_matching_batchnorm\<close> of \<open>dynamic_network_architectures\<close>, the label manager of
  the plans (for \<open>num_segmentation_heads\<close>), and the constructors of the three network
  classes. Each may raise.
\<close>

record ('norm, 'net) externals =
  convert_dim_to_conv_op :: "int \<Rightarrow> error + conv_op"
  get_matching_batchnorm :: "conv_op \<Rightarrow> error + 'norm"
  num_segmentation_heads :: "error + int"
  construct :: "network_class \<Rightarrow> 'norm network_call \<Rightarrow> error + 'net"

text \<open>
  The returned module: an instance of the class that was called, with the initialisers
  applied to it by \<open>model.apply\<close>.
\<close>

record 'net model =
  model_class :: network_class
  model_instance :: 'net
  model_applied :: "string list"

definition build_network_architecture ::
  "('norm, 'net) externals \<Rightarrow> configuration_manager \<Rightarrow> string \<Rightarrow> int \<Rightarrow> int \<Rightarrow> bool \<Rightarrow>
   failure + 'net model"
where
  "build_network_architecture ext cm architecture_class_name num_input_channels
     num_output_channels enable_deep_supervision =
     then_do (raising (item (cm_conv_kernel_sizes cm) 0)) (\<lambda>first_kernel.
     let dim = int (length first_kernel) in
     then_do (raising (convert_dim_to_conv_op ext dim)) (\<lambda>conv_op.
     then_do (raising (num_segmentation_heads ext)) (\<lambda>heads.
     let segmentation_network_class_name = ''NexToU'' in
     then_do (raising (get_matching_batchnorm ext conv_op)) (\<lambda>norm_op.
     let kw = \<lparr> kw_conv_bias = True, kw_norm_op = norm_op, kw_norm_op_eps = 1 / 100000,
                kw_norm_op_affine = True, kw_nonlin = ''LeakyReLU'',
                kw_nonlin_inplace = True \<rparr>;
         kwargs = [(''PlainConvUNet'', kw), (''ResidualEncoderUNet'', kw), (''NexToU'', kw)]
     in
     if segmentation_network_class_name \<notin> set (map fst mapping)
     then Inl ArchitectureAssertion
     else
       then_do (raising (lookup mapping segmentation_network_class_name)) (\<lambda>network_class.
       then_do (raising (lookup kwargs segmentation_network_class_name)) (\<lambda>class_kwargs.
       let call =
             \<lparr> nc_input_channels = num_input_channels,
               nc_patch_size = cm_patch_size cm,
               nc_n_stages = cm_n_stages cm,
               nc_features_per_stage =
                 map (\<lambda>i. min (cm_UNet_base_num_features cm * 2 ^ nat i)
                              (cm_unet_max_num_features cm))
                   (py_range (cm_n_stages cm)),
               nc_conv_op = conv_op,
               nc_kernel_sizes = cm_conv_kernel_sizes cm,
               nc_strides = cm_pool_op_kernel_sizes cm,
               nc_num_classes = heads,
               nc_deep_supervision = enable_deep_supervision,
               nc_n_blocks_per_stage = cm_n_blocks_per_stage cm,
               nc_n_blocks_per_stage_decoder = cm_n_conv_per_stage_decoder cm,
               nc_kwargs = class_kwargs \<rparr>
       in
       then_do (raising (construct ext network_class call)) (\<lambda>instance.
         Inr \<lparr> model_class = network_class, model_instance = instance,
               model_applied =
                 (if network_class = ResidualEncoderUNet
                  then [''InitWeights_He'', ''init_last_bn_before_add_to_0'']
                  else [''InitWeights_He'']) \<rparr>)))))))"

text \<open>A five-stage 2D configuration of the plans.\<close>

definition example_configuration :: configuration_manager where
  "example_configuration =
     \<lparr> cm_conv_kernel_sizes = [[3, 3], [3, 3], [3, 3], [3, 3], [3, 3]],
       cm_patch_size = [64, 64], cm_n_stages = 5, cm_UNet_base_num_features = 32,
       cm_unet_max_num_features = 512,
       cm_pool_op_kernel_sizes = [PerAxis [1, 1], PerAxis [2, 2], PerAxis [2, 2], PerAxis [2, 2],
         PerAxis [2, 2]],
       cm_n_blocks_per_stage = [2, 2, 2, 2, 2], cm_n_conv_per_stage_decoder = [2, 2, 2, 2] \<rparr>"

section \<open>The normalized surface dice\<close>

text \<open>
  \<open>normalized_surface_dice\<close>. An image is its shape and its voxels. The surface
  distances come from \<open>medpy\<close>: \<open>surface_distances a b spacing connectivity\<close> is a
  parameter of the model, \<open>None\<close> when the library raises (an image without an
  object), and otherwise the distances from the surface voxels of \<open>a\<close> to the surface
  of \<open>b\<close>. Distances and threshold are real numbers. \<open>np.sum\<close> of a comparison
  counts the entries that satisfy it; the quotient of two counts is a float, and
  \<open>numpy\<close> gives \<open>nan\<close> for \<open>0 / 0\<close>.
\<close>

record image =
  image_shape :: "nat list"
  image_voxels :: "bool list"

datatype np_float = NaN | Finite real

definition true_divide :: "nat \<Rightarrow> nat \<Rightarrow> np_float" where
  "true_divide p q = (if q = 0 then NaN else Finite (real p / real q))"

definition normalized_surface_dice ::
  "(image \<Rightarrow> image \<Rightarrow> real list \<Rightarrow> nat \<Rightarrow> real list option) \<Rightarrow>
   image \<Rightarrow> image \<Rightarrow> real \<Rightarrow> real list option \<Rightarrow> np_float option"
where
  "normalized_surface_dice surface_distances a b threshold spacing =
     (let spacing =
            (case spacing of
               None \<Rightarrow> replicate (length (image_shape a)) 1
             | Some s \<Rightarrow> s)
      in
      case surface_distances a b spacing 1 of
        None \<Rightarrow> None
      | Some a_to_b \<Rightarrow>
          (case surface_distances b a spacing 1 of
             None \<Rightarrow> None
           | Some b_to_a \<Rightarrow>
               (let tp_a = length (filter (\<lambda>d. d \<le> threshold) a_to_b);
                    tp_b = length (filter (\<lambda>d. d \<le> threshold) b_to_a);
                    fp = length (filter (\<lambda>d. d > threshold) a_to_b);
                    fn = length (filter (\<lambda>d. d > threshold) b_to_a)
                in Some (true_divide (tp_a + tp_b) (tp_a + tp_b + fp + fn)))))"

section \<open>Window partition and its reverse\<close>



















section \<open>Encoder and decoder compute the same schedule\<close>

lemma decoder_loop2d_eq: "decoder_loop2d ks h w S N = encoder_loop2d ks h w S N"
  by (induction ks arbitrary: h w S N) simp_all

lemma decoder_loop3d_eq: "decoder_loop3d ks h w d S N = encoder_loop3d ks h w d S N"
  by (induction ks arbitrary: h w d S N) simp_all

text \<open>
  Claim C5. On the same \<open>patch_size\<close>, the same \<open>strides\<close> and the same
  convolution class, the decoder computes the \<open>img_shape_list\<close>, the
  \<open>n_size_list\<close> and the \<open>img_min_shape\<close> that the encoder computes, and it
  raises where the encoder raises.
\<close>

theorem decoder_img_shapes_agree:
  "decoder_img_shapes conv_op patch_size strides = encoder_img_shapes conv_op patch_size strides"
  by (simp add: decoder_img_shapes_def encoder_img_shapes_def decoder_loop2d_eq decoder_loop3d_eq Let_def)

lemma length_schedule: "length (spec_shape_schedule p ks) = Suc (length ks)"
  by (induction ks arbitrary: p) simp_all

lemma schedule_0: "spec_shape_schedule p ks ! 0 = p"
  by (cases ks) simp_all

lemma schedule_Suc:
  "i < length ks \<Longrightarrow> spec_shape_schedule p ks ! Suc i = map2 (div) (spec_shape_schedule p ks ! i) (axes_of (ks ! i))"
proof (induction ks arbitrary: p i)
  case Nil
  then show ?case by simp
next
  case (Cons k ks)
  show ?case
  proof (cases i)
    case 0
    then show ?thesis by (simp add: schedule_0)
  next
    case (Suc j)
    with Cons show ?thesis by simp
  qed
qed

lemma encoder_loop2d_schedule:
  assumes "\<forall>k\<in>set ks. \<exists>a b. k = PerAxis [a, b] \<and> a \<noteq> 0 \<and> b \<noteq> 0"
  shows "encoder_loop2d ks h w S N =
           Inr (S @ tl (spec_shape_schedule [h, w] ks), N @ map prod_list (tl (spec_shape_schedule [h, w] ks)))"
  using assms
proof (induction ks arbitrary: h w S N)
  case Nil
  then show ?case by simp
next
  case (Cons k ks)
  then obtain a b where k: "k = PerAxis [a, b]" "a \<noteq> 0" "b \<noteq> 0" by auto
  have rest: "\<forall>k\<in>set ks. \<exists>a b. k = PerAxis [a, b] \<and> a \<noteq> 0 \<and> b \<noteq> 0"
    using Cons.prems by simp
  have tl_sched: "spec_shape_schedule p ks = p # tl (spec_shape_schedule p ks)" for p
    by (cases ks) simp_all
  have m: "map prod_list (spec_shape_schedule [h div a, w div b] ks) =
      (h div a) * (w div b) # map prod_list (tl (spec_shape_schedule [h div a, w div b] ks))"
    by (subst tl_sched) simp
  have t: "tl (spec_shape_schedule [h, w] (k # ks)) = spec_shape_schedule [h div a, w div b] ks"
    by (simp add: k axes_of_def)
  show ?case
    unfolding t m
    using Cons.IH [OF rest, of "h div a" "w div b"]
    by (simp add: k and_then_def floordiv_def tl_sched [symmetric])
qed


lemma encoder_loop3d_schedule:
  assumes "\<forall>k\<in>set ks. \<exists>a b c. k = PerAxis [a, b, c] \<and> a \<noteq> 0 \<and> b \<noteq> 0 \<and> c \<noteq> 0"
  shows "encoder_loop3d ks h w d S N =
           Inr (S @ tl (spec_shape_schedule [h, w, d] ks), N @ map prod_list (tl (spec_shape_schedule [h, w, d] ks)))"
  using assms
proof (induction ks arbitrary: h w d S N)
  case Nil
  then show ?case by simp
next
  case (Cons k ks)
  then obtain a b c where k: "k = PerAxis [a, b, c]" "a \<noteq> 0" "b \<noteq> 0" "c \<noteq> 0" by auto
  have rest: "\<forall>k\<in>set ks. \<exists>a b c. k = PerAxis [a, b, c] \<and> a \<noteq> 0 \<and> b \<noteq> 0 \<and> c \<noteq> 0"
    using Cons.prems by simp
  have tl_sched: "spec_shape_schedule p ks = p # tl (spec_shape_schedule p ks)" for p
    by (cases ks) simp_all
  have m: "map prod_list (spec_shape_schedule [h div a, w div b, d div c] ks) =
      (h div a) * (w div b) * (d div c) #
        map prod_list (tl (spec_shape_schedule [h div a, w div b, d div c] ks))"
    by (subst tl_sched) (simp add: mult.assoc)
  have t: "tl (spec_shape_schedule [h, w, d] (k # ks)) = spec_shape_schedule [h div a, w div b, d div c] ks"
    by (simp add: k axes_of_def)
  show ?case
    unfolding t m
    using Cons.IH [OF rest, of "h div a" "w div b" "d div c"]
    by (simp add: k and_then_def floordiv_def tl_sched [symmetric])
qed

lemma schedule_hd_tl: "p # tl (spec_shape_schedule p ks) = spec_shape_schedule p ks"
  by (cases ks) simp_all

lemma pair_axes:
  "length ks = 2 \<and> (0::int) \<notin> set ks \<Longrightarrow> \<exists>a b. ks = [a, b] \<and> a \<noteq> 0 \<and> b \<noteq> 0"
  by (cases ks; cases "tl ks"; cases "tl (tl ks)") auto

lemma triple_axes:
  "length ks = 3 \<and> (0::int) \<notin> set ks \<Longrightarrow>
     \<exists>a b c. ks = [a, b, c] \<and> a \<noteq> 0 \<and> b \<noteq> 0 \<and> c \<noteq> 0"
  by (cases ks; cases "tl ks"; cases "tl (tl ks)"; cases "tl (tl (tl ks))") auto

lemma encoder_img_shapes_2d:
  assumes "2 \<le> length patch_size"
    and "\<forall>k\<in>set (drop 1 strides). \<exists>ks. k = PerAxis ks \<and> length ks = 2 \<and> 0 \<notin> set ks"
  shows "encoder_img_shapes Conv2d patch_size strides =
     Inr (spec_shape_schedule (take 2 patch_size) (drop 1 strides),
          map prod_list (spec_shape_schedule (take 2 patch_size) (drop 1 strides)),
          last (spec_shape_schedule (take 2 patch_size) (drop 1 strides)))"
proof -
  have ok: "\<forall>k\<in>set (drop 1 strides). \<exists>a b. k = PerAxis [a, b] \<and> a \<noteq> 0 \<and> b \<noteq> 0"
    using assms(2) pair_axes by blast
  obtain h w rest where p: "patch_size = h # w # rest"
    using assms(1) by (cases patch_size; cases "tl patch_size") auto
  have l: "encoder_loop2d (drop (Suc 0) strides) h w S N =
      Inr (S @ tl (spec_shape_schedule [h, w] (drop (Suc 0) strides)),
           N @ map prod_list (tl (spec_shape_schedule [h, w] (drop (Suc 0) strides))))" for S N
    using encoder_loop2d_schedule [OF ok] by simp
  have m: "[h, w] # tl (spec_shape_schedule [h, w] ks) = spec_shape_schedule [h, w] ks"
     "h * w # map prod_list (tl (spec_shape_schedule [h, w] ks)) = map prod_list (spec_shape_schedule [h, w] ks)"
    for ks
    by (cases ks; simp)+
  show ?thesis
    by (simp add: encoder_img_shapes_def p item_def and_then_def l m)
qed

lemma encoder_img_shapes_3d:
  assumes "3 \<le> length patch_size"
    and "\<forall>k\<in>set (drop 1 strides). \<exists>ks. k = PerAxis ks \<and> length ks = 3 \<and> 0 \<notin> set ks"
  shows "encoder_img_shapes Conv3d patch_size strides =
     Inr (spec_shape_schedule (take 3 patch_size) (drop 1 strides),
          map prod_list (spec_shape_schedule (take 3 patch_size) (drop 1 strides)),
          last (spec_shape_schedule (take 3 patch_size) (drop 1 strides)))"
proof -
  have ok: "\<forall>k\<in>set (drop 1 strides).
      \<exists>a b c. k = PerAxis [a, b, c] \<and> a \<noteq> 0 \<and> b \<noteq> 0 \<and> c \<noteq> 0"
    using assms(2) triple_axes by blast
  obtain h w d rest where p: "patch_size = h # w # d # rest"
    using assms(1) by (cases patch_size; cases "tl patch_size"; cases "tl (tl patch_size)") auto
  have l: "encoder_loop3d (drop (Suc 0) strides) h w d S N =
      Inr (S @ tl (spec_shape_schedule [h, w, d] (drop (Suc 0) strides)),
           N @ map prod_list (tl (spec_shape_schedule [h, w, d] (drop (Suc 0) strides))))" for S N
    using encoder_loop3d_schedule [OF ok] by simp
  have m: "[h, w, d] # tl (spec_shape_schedule [h, w, d] ks) = spec_shape_schedule [h, w, d] ks"
     "h * w * d # map prod_list (tl (spec_shape_schedule [h, w, d] ks)) =
        map prod_list (spec_shape_schedule [h, w, d] ks)"
    for ks
    by (cases ks; simp add: mult.assoc)+
  show ?thesis
    by (simp add: encoder_img_shapes_def p item_def and_then_def l m)
qed

lemma encoder_img_shapes_sched:
  assumes "conv_op = Conv2d \<and> d = 2 \<or> conv_op = Conv3d \<and> d = 3"
    and "d \<le> length patch_size"
    and "\<forall>k\<in>set (drop 1 strides). \<exists>ks. k = PerAxis ks \<and> length ks = d \<and> 0 \<notin> set ks"
  shows "encoder_img_shapes conv_op patch_size strides =
     Inr (spec_shape_schedule (take d patch_size) (drop 1 strides),
          map prod_list (spec_shape_schedule (take d patch_size) (drop 1 strides)),
          last (spec_shape_schedule (take d patch_size) (drop 1 strides)))"
  using assms encoder_img_shapes_2d [of patch_size strides]
    encoder_img_shapes_3d [of patch_size strides]
  by (elim disjE conjE) simp_all

section \<open>The multi-resolution shape schedule\<close>

text \<open>
  Claim C6, amended. Let \<open>conv_op\<close> be \<open>Conv2d\<close> (\<open>d = 2\<close>) or
  \<open>Conv3d\<close> (\<open>d = 3\<close>), \<open>len(strides) = n_stages\<close> with at least one stage,
  \<open>patch_size\<close> with at least \<open>d\<close> entries, and every entry of
  \<open>strides[1:]\<close> a sequence of exactly \<open>d\<close> non-zero integers. Then the block
  returns; \<open>img_shape_list\<close> has exactly \<open>n_stages\<close> entries; entry 0 is the
  first \<open>d\<close> entries of \<open>patch_size\<close>; entry \<open>i + 1\<close> is entry \<open>i\<close>
  floor-divided componentwise by \<open>strides[i + 1]\<close>; \<open>n_size_list[i]\<close> is the
  product of the components of \<open>img_shape_list[i]\<close>; and \<open>img_min_shape\<close> is the
  last entry. For every other \<open>conv_op\<close> the block raises \<open>ValueError\<close>.
\<close>

theorem encoder_img_shapes_schedule:
  "((conv_op = Conv2d \<and> d = 2 \<or> conv_op = Conv3d \<and> d = 3) \<and>
    length strides = n_stages \<and> 1 \<le> n_stages \<and> d \<le> length patch_size \<and>
    (\<forall>k\<in>set (drop 1 strides). \<exists>ks. k = PerAxis ks \<and> length ks = d \<and> 0 \<notin> set ks) \<longrightarrow>
    (\<exists>img_shape_list n_size_list.
       encoder_img_shapes conv_op patch_size strides =
         Inr (img_shape_list, n_size_list, last img_shape_list) \<and>
       length img_shape_list = n_stages \<and>
       img_shape_list ! 0 = take d patch_size \<and>
       (\<forall>i. i + 1 < n_stages \<longrightarrow>
          img_shape_list ! (i + 1) =
            map2 (div) (img_shape_list ! i) (axes_of (strides ! (i + 1)))) \<and>
       length n_size_list = n_stages \<and>
       (\<forall>i<n_stages. n_size_list ! i = prod_list (img_shape_list ! i)))) \<and>
   (conv_op \<noteq> Conv2d \<and> conv_op \<noteq> Conv3d \<longrightarrow>
      encoder_img_shapes conv_op patch_size strides = Inl ValueError)"
proof (intro conjI impI)
  assume h: "(conv_op = Conv2d \<and> d = 2 \<or> conv_op = Conv3d \<and> d = 3) \<and>
    length strides = n_stages \<and> 1 \<le> n_stages \<and> d \<le> length patch_size \<and>
    (\<forall>k\<in>set (drop 1 strides). \<exists>ks. k = PerAxis ks \<and> length ks = d \<and> 0 \<notin> set ks)"
  let ?S = "spec_shape_schedule (take d patch_size) (drop 1 strides)"
  have e: "encoder_img_shapes conv_op patch_size strides = Inr (?S, map prod_list ?S, last ?S)"
    using h encoder_img_shapes_sched by blast
  have l: "length ?S = n_stages"
    using h by (simp add: length_schedule)
  have s: "?S ! (i + 1) = map2 (div) (?S ! i) (axes_of (strides ! (i + 1)))"
    if "i + 1 < n_stages" for i
    using that h schedule_Suc [of i "drop 1 strides" "take d patch_size"] by simp
  show "\<exists>img_shape_list n_size_list.
       encoder_img_shapes conv_op patch_size strides =
         Inr (img_shape_list, n_size_list, last img_shape_list) \<and>
       length img_shape_list = n_stages \<and>
       img_shape_list ! 0 = take d patch_size \<and>
       (\<forall>i. i + 1 < n_stages \<longrightarrow>
          img_shape_list ! (i + 1) =
            map2 (div) (img_shape_list ! i) (axes_of (strides ! (i + 1)))) \<and>
       length n_size_list = n_stages \<and>
       (\<forall>i<n_stages. n_size_list ! i = prod_list (img_shape_list ! i))"
    using e l s by (intro exI [of _ ?S] exI [of _ "map prod_list ?S"]) (simp add: schedule_0)
next
  assume "conv_op \<noteq> Conv2d \<and> conv_op \<noteq> Conv3d"
  then show "encoder_img_shapes conv_op patch_size strides = Inl ValueError"
    by (simp add: encoder_img_shapes_def)
qed

text \<open>The theorem at a 2D patch of 32 by 48 with three stages.\<close>

theorem encoder_img_shapes_schedule_witness:
  "length [PerAxis [1, 1], PerAxis [2, 2], PerAxis [2, 3]] = (3::nat) \<and>
   encoder_img_shapes Conv2d [32, 48] [PerAxis [1, 1], PerAxis [2, 2], PerAxis [2, 3]] =
     Inr ([[32, 48], [16, 24], [8, 8]], [1536, 384, 64], [8, 8]) \<and>
   (\<exists>img_shape_list n_size_list.
       encoder_img_shapes Conv2d [32, 48] [PerAxis [1, 1], PerAxis [2, 2], PerAxis [2, 3]] =
         Inr (img_shape_list, n_size_list, last img_shape_list) \<and>
       length img_shape_list = 3 \<and>
       img_shape_list ! 0 = take 2 [32, 48] \<and>
       (\<forall>i. i + 1 < 3 \<longrightarrow>
          img_shape_list ! (i + 1) =
            map2 (div) (img_shape_list ! i)
              (axes_of ([PerAxis [1, 1], PerAxis [2, 2], PerAxis [2, 3]] ! (i + 1)))) \<and>
       length n_size_list = 3 \<and>
       (\<forall>i<3. n_size_list ! i = prod_list (img_shape_list ! i))) \<and>
   encoder_img_shapes Conv1d [32, 48] [PerAxis [1, 1], PerAxis [2, 2], PerAxis [2, 3]] =
     Inl ValueError"
proof -
  have v: "encoder_img_shapes Conv2d [32, 48] [PerAxis [1, 1], PerAxis [2, 2], PerAxis [2, 3]] =
     Inr ([[32, 48], [16, 24], [8, 8]], [1536, 384, 64], [8, 8])"
    by (simp add: encoder_img_shapes_def and_then_def item_def floordiv_def)
  show ?thesis
    using encoder_img_shapes_schedule [of Conv2d 2
        "[PerAxis [1, 1], PerAxis [2, 2], PerAxis [2, 3]]" 3 "[32, 48]"]
      encoder_img_shapes_schedule [of Conv1d 2
        "[PerAxis [1, 1], PerAxis [2, 2], PerAxis [2, 3]]" 3 "[32, 48]"]
    unfolding v by simp
qed

text \<open>
  Claim C6 as stated fails. With \<open>n_stages = 2\<close>, \<open>Conv2d\<close> and
  \<open>strides = [1, 2]\<close> (a list of integers, which the annotation of \<open>strides\<close>
  allows and the constructor builds itself from an integer), \<open>len(strides)\<close> is
  \<open>n_stages\<close> and unpacking \<open>strides[1]\<close> raises, so no \<open>img_shape_list\<close> is
  computed. With \<open>n_stages = 0\<close> and \<open>strides = []\<close> the list has one entry, not
  \<open>n_stages\<close>.
\<close>

theorem encoder_img_shapes_scalar_stride:
  "length [Scalar 1, Scalar 2] = (2::nat) \<and>
   encoder_img_shapes Conv2d [32, 48] [Scalar 1, Scalar 2] = Inl TypeError \<and>
   length ([] :: axes list) = (0::nat) \<and>
   encoder_img_shapes Conv2d [32, 48] [] = Inr ([[32, 48]], [1536], [32, 48])"
  by (simp add: encoder_img_shapes_def and_then_def item_def floordiv_def)

section \<open>Selection of the k-nearest-neighbour parameters\<close>

lemma closest_k_cases:
  "closest_k m =
     (if m \<le> 3 then 2 else if m \<le> 6 then 4 else if m \<le> 12 then 8
      else if m \<le> 24 then 16 else 32)"
proof -
  have k: "closest_k m = min_by_key (\<lambda>x. \<bar>x - m\<bar>) 2 [4, 8, 16, 32]"
    by (simp add: closest_k_def k_candidate_list_def)
  consider "m \<le> 3" | "3 < m \<and> m \<le> 6" | "6 < m \<and> m \<le> 12" | "12 < m \<and> m \<le> 24" | "24 < m"
    by linarith
  then show ?thesis
  proof cases
    case 1 then show ?thesis unfolding k by (simp add: abs_if)
  next
    case 2 then show ?thesis unfolding k by (simp add: abs_if)
  next
    case 3 then show ?thesis unfolding k by (simp add: abs_if)
  next
    case 4 then show ?thesis unfolding k by (simp add: abs_if)
  next
    case 5 then show ?thesis unfolding k by (simp add: abs_if)
  qed
qed

lemma closest_k_closest:
  "closest_k m \<in> set k_candidate_list \<and>
   (\<forall>x\<in>set k_candidate_list. \<bar>closest_k m - m\<bar> \<le> \<bar>x - m\<bar>)"
proof -
  consider "m \<le> 3" | "3 < m \<and> m \<le> 6" | "6 < m \<and> m \<le> 12" | "12 < m \<and> m \<le> 24" | "24 < m"
    by linarith
  then show ?thesis
    by cases (simp_all add: closest_k_cases k_candidate_list_def abs_if)
qed

lemma length_k_list_of: "length (k_list_of a b n) = n"
  by (auto simp: k_list_of_def)

lemma py_max_Max: "py_max xs = Inr m \<Longrightarrow> xs \<noteq> [] \<and> m = Max (set xs)"
proof (cases xs)
  case Nil
  assume "py_max xs = Inr m"
  with Nil show ?thesis by simp
next
  case (Cons x ys)
  assume "py_max xs = Inr m"
  with Cons have "m = foldl max x ys" by simp
  also have "foldl max x ys = Max (set (x # ys))"
  proof -
    have "(\<lambda>a s::int. max s a) = max"
      by (intro ext) (simp add: max.commute)
    then show ?thesis
      by (simp only: foldl_conv_fold Max.set_eq_fold)
  qed
  finally show ?thesis using Cons by simp
qed


lemma k_list_of_entries:
  assumes "k \<in> set (k_list_of a b n)"
  shows "(\<exists>j. k = min (a * 2 ^ j) b) \<and> k \<le> b"
proof -
  have "k \<in> {min a b, min (a * 2) b, min (a * 4) b, min (a * 8) b, min (a * 16) b}"
    using assms by (auto simp: k_list_of_def split: if_splits dest!: in_set_takeD)
  moreover have "min a b = min (a * 2 ^ 0) b" "min (a * 2) b = min (a * 2 ^ 1) b"
    "min (a * 4) b = min (a * 2 ^ 2) b" "min (a * 8) b = min (a * 2 ^ 3) b"
    "min (a * 16) b = min (a * 2 ^ 4) b"
    by simp_all
  ultimately show ?thesis
    by (metis insertE singletonD min.cobounded2)
qed

lemma knn_setup_fields:
  assumes "knn_setup conv_op shape n = Inr p"
  shows "(conv_op = Conv2d \<and> max_num p = prod_list shape div 2 \<or>
          conv_op = Conv3d \<and> max_num p = prod_list shape div 3) \<and>
         max_k p = closest_k (max_num p) \<and>
         k_list p = k_list_of (min_k p) (max_k p) n \<and>
         k_list p \<noteq> [] \<and>
         max_dilation p = prod_list shape div Max (set (k_list p))"
proof (cases conv_op)
  case Conv1d
  with assms show ?thesis by (simp add: knn_setup_def)
next
  case Conv2d
  with assms obtain H W where s: "shape = [H, W]"
    by (auto simp: knn_setup_def split: list.splits)
  let ?ks = "k_list_of (H * W div 2 div 4) (closest_k (H * W div 2)) n"
  from assms Conv2d s obtain m where m: "py_max ?ks = Inr m"
    and p: "floordiv (H * W) m = Inr (max_dilation p)" "max_num p = H * W div 2"
      "max_k p = closest_k (H * W div 2)" "min_k p = H * W div 2 div 4" "k_list p = ?ks"
    by (auto simp: knn_setup_def and_then_def Let_def split: sum.splits)
  from p(1) have "max_dilation p = H * W div m"
    by (auto simp: floordiv_def split: if_splits)
  with py_max_Max [OF m] p Conv2d s show ?thesis by simp
next
  case Conv3d
  with assms obtain H W D where s: "shape = [H, W, D]"
    by (auto simp: knn_setup_def split: list.splits)
  let ?ks = "k_list_of (H * W * D div 3 div 8) (closest_k (H * W * D div 3)) n"
  from assms Conv3d s obtain m where m: "py_max ?ks = Inr m"
    and p: "floordiv (H * W * D) m = Inr (max_dilation p)" "max_num p = H * W * D div 3"
      "max_k p = closest_k (H * W * D div 3)" "min_k p = H * W * D div 3 div 8" "k_list p = ?ks"
    by (auto simp: knn_setup_def and_then_def Let_def split: sum.splits)
  from p(1) have "max_dilation p = H * W * D div m"
    by (auto simp: floordiv_def split: if_splits)
  with py_max_Max [OF m] p Conv3d s show ?thesis by (simp add: mult.assoc)
qed

lemma swin_blocks_loop_dilation:
  "swin_blocks_loop channels img_shape i opt conv_op p dpr idxs = Inr blocks \<Longrightarrow>
   length blocks = length idxs \<and>
   (\<forall>j<length idxs. sg_dilation (fst (blocks ! j)) = min (idxs ! j div 4 + 1) (max_dilation p))"
proof (induction idxs arbitrary: blocks)
  case Nil
  then show ?case by simp
next
  case (Cons idx idxs)
  from Cons.prems obtain b bs where b: "swin_block channels img_shape i opt conv_op p dpr idx = Inr b"
    and bs: "swin_blocks_loop channels img_shape i opt conv_op p dpr idxs = Inr bs"
    and blocks: "blocks = b # bs"
    by (auto simp: and_then_def split: sum.splits)
  from b have d: "sg_dilation (fst b) = min (idx div 4 + 1) (max_dilation p)"
    by (auto simp: swin_block_def and_then_def split: sum.splits if_splits)
  from Cons.IH [OF bs] d blocks show ?case
    by (auto simp: nth_Cons split: nat.splits)
qed

lemma pool_blocks_loop_dilation:
  "pool_blocks_loop channels img_shape i stage_num opt conv_op p ns ms dpr idxs = Inr blocks \<Longrightarrow>
   length blocks = length idxs \<and>
   (\<forall>j<length idxs. pg_dilation (fst (blocks ! j)) = min (idxs ! j div 4 + 1) (max_dilation p))"
proof (induction idxs arbitrary: blocks)
  case Nil
  then show ?case by simp
next
  case (Cons idx idxs)
  from Cons.prems obtain b bs
    where b: "pool_block channels img_shape i stage_num opt conv_op p ns ms dpr idx = Inr b"
    and bs: "pool_blocks_loop channels img_shape i stage_num opt conv_op p ns ms dpr idxs = Inr bs"
    and blocks: "blocks = b # bs"
    by (auto simp: and_then_def split: sum.splits)
  from b have d: "pg_dilation (fst b) = min (idx div 4 + 1) (max_dilation p)"
    by (auto simp: pool_block_def and_then_def split: sum.splits if_splits)
  from Cons.IH [OF bs] d blocks show ?case
    by (auto simp: nth_Cons split: nat.splits)
qed

lemma SwinGNNBlocks_init_dilation:
  assumes "SwinGNNBlocks_init channels img_shape index opt conv_op = Inr blocks"
  shows "\<exists>shape p. opt_img_min_shape opt = Some shape \<and>
           knn_setup conv_op shape (opt_pool_op_kernel_sizes_len opt) = Inr p \<and>
           (\<forall>j<length blocks. sg_dilation (fst (blocks ! j)) =
              min ((int j + sum_list (slice_to (opt_blocks opt) index)) div 4 + 1)
                (max_dilation p))"
proof -
  from assms obtain ns shape dpr count p
    where shape: "opt_img_min_shape opt = Some shape"
      and p: "knn_setup conv_op shape (opt_pool_op_kernel_sizes_len opt) = Inr p"
      and loop: "swin_blocks_loop channels img_shape index opt conv_op p dpr
          (map (\<lambda>k. k + sum_list (slice_to (opt_blocks opt) index)) (py_range count)) = Inr blocks"
    by (auto simp: SwinGNNBlocks_init_def and_then_def attribute_def Let_def
        split: sum.splits option.splits)
  from swin_blocks_loop_dilation [OF loop] have
    "\<forall>j<length blocks. sg_dilation (fst (blocks ! j)) =
        min ((int j + sum_list (slice_to (opt_blocks opt) index)) div 4 + 1) (max_dilation p)"
    by (simp add: py_range_def)
  with shape p show ?thesis by blast
qed

lemma PoolGNNBlocks_init_dilation:
  assumes "PoolGNNBlocks_init channels img_shape index stage_num opt conv_op = Inr blocks"
  shows "\<exists>shape p. opt_img_min_shape opt = Some shape \<and>
           knn_setup conv_op shape (opt_pool_op_kernel_sizes_len opt) = Inr p \<and>
           (\<forall>j<length blocks. pg_dilation (fst (blocks ! j)) =
              min ((int j + sum_list (slice_to (opt_blocks opt) index)) div 4 + 1)
                (max_dilation p))"
proof -
  from assms obtain ns shape dpr count p
    where shape: "opt_img_min_shape opt = Some shape"
      and p: "knn_setup conv_op shape (opt_pool_op_kernel_sizes_len opt) = Inr p"
      and loop: "pool_blocks_loop channels img_shape index stage_num opt conv_op p ns shape dpr
          (map (\<lambda>k. k + sum_list (slice_to (opt_blocks opt) index)) (py_range count)) = Inr blocks"
    by (auto simp: PoolGNNBlocks_init_def and_then_def attribute_def Let_def
        split: sum.splits option.splits)
  from pool_blocks_loop_dilation [OF loop] have
    "\<forall>j<length blocks. pg_dilation (fst (blocks ! j)) =
        min ((int j + sum_list (slice_to (opt_blocks opt) index)) div 4 + 1) (max_dilation p)"
    by (simp add: py_range_def)
  with shape p show ?thesis by blast
qed


text \<open>
  Claim C8. In \<open>SwinGNNBlocks.__init__\<close> and \<open>PoolGNNBlocks.__init__\<close>:
  \<open>max_k\<close> is an element of \<open>[2, 4, 8, 16, 32]\<close> that no other element beats in
  distance to \<open>max_num\<close> (the first such element, as \<open>closest_k_cases\<close> spells
  out), where \<open>max_num\<close> is the product of \<open>img_min_shape\<close> floor-divided by 2
  for \<open>Conv2d\<close> and by 3 for \<open>Conv3d\<close>; \<open>k_list\<close> has exactly
  \<open>pool_op_kernel_sizes_len\<close> entries, each \<open>min(min_k * 2^j, max_k)\<close> for some
  \<open>j\<close> and so at most \<open>max_k\<close>; \<open>max_dilation\<close> is the product of
  \<open>img_min_shape\<close> floor-divided by \<open>max(k_list)\<close>; and block \<open>j\<close> of a
  constructed \<open>SwinGNNBlocks\<close> or \<open>PoolGNNBlocks\<close> has dilation
  \<open>min(idx // 4 + 1, max_dilation)\<close> at \<open>idx = j + sum(blocks[0:index])\<close>.
\<close>

theorem knn_parameter_selection:
  "closest_k m \<in> set k_candidate_list \<and>
   (\<forall>x\<in>set k_candidate_list. \<bar>closest_k m - m\<bar> \<le> \<bar>x - m\<bar>) \<and>
   length (k_list_of a b n) = n \<and>
   (\<forall>k\<in>set (k_list_of a b n). (\<exists>j. k = min (a * 2 ^ j) b) \<and> k \<le> b) \<and>
   (knn_setup conv_op shape n = Inr p \<longrightarrow>
      (conv_op = Conv2d \<and> max_num p = prod_list shape div 2 \<or>
       conv_op = Conv3d \<and> max_num p = prod_list shape div 3) \<and>
      max_k p = closest_k (max_num p) \<and>
      k_list p = k_list_of (min_k p) (max_k p) n \<and>
      k_list p \<noteq> [] \<and>
      max_dilation p = prod_list shape div Max (set (k_list p))) \<and>
   (SwinGNNBlocks_init channels img_shape index opt conv_op = Inr swin_blocks \<longrightarrow>
      (\<exists>min_shape q. opt_img_min_shape opt = Some min_shape \<and>
         knn_setup conv_op min_shape (opt_pool_op_kernel_sizes_len opt) = Inr q \<and>
         (\<forall>j<length swin_blocks. sg_dilation (fst (swin_blocks ! j)) =
            min ((int j + sum_list (slice_to (opt_blocks opt) index)) div 4 + 1)
              (max_dilation q)))) \<and>
   (PoolGNNBlocks_init channels img_shape index stage_num opt conv_op = Inr pool_blocks \<longrightarrow>
      (\<exists>min_shape q. opt_img_min_shape opt = Some min_shape \<and>
         knn_setup conv_op min_shape (opt_pool_op_kernel_sizes_len opt) = Inr q \<and>
         (\<forall>j<length pool_blocks. pg_dilation (fst (pool_blocks ! j)) =
            min ((int j + sum_list (slice_to (opt_blocks opt) index)) div 4 + 1)
              (max_dilation q))))"
  using closest_k_closest [of m] length_k_list_of [of a b n] k_list_of_entries [of _ a b n]
    knn_setup_fields [of conv_op shape n p]
    SwinGNNBlocks_init_dilation [of channels img_shape index opt conv_op swin_blocks]
    PoolGNNBlocks_init_dilation [of channels img_shape index stage_num opt conv_op pool_blocks]
  by blast


text \<open>
  The theorem at a five-stage 2D network whose smallest feature map is 4 by 4, for the
  blocks of stage 1.
\<close>

theorem knn_parameter_selection_witness:
  "knn_setup Conv2d [4, 4] 5 =
     Inr \<lparr> max_num = 8, max_k = 8, min_k = 2, k_list = [2, 4, 4, 8, 8], max_dilation = 2,
           window_size = [4, 4], window_size_n = 16 \<rparr> \<and>
   SwinGNNBlocks_init 32 [8, 8] 1
     ((OptInit 0 5) \<lparr> opt_img_min_shape := Some [4, 4],
        opt_n_size_list := Some [1024, 256, 64, 16, 16] \<rparr>) Conv2d =
     Inr [(\<lparr> sg_in_channels = 32, sg_img_shape = [8, 8], sg_kernel_size = 4, sg_dilation = 1,
             sg_r = 1, sg_n = 16, sg_drop_path = 0, sg_conv_op = Conv2d,
             sg_window_size = [4, 4], sg_shift_size = [2, 2] \<rparr>,
           FFN 32 128 ''leakyrelu'' 0)] \<and>
   PoolGNNBlocks_init 32 [8, 8] 1 0
     ((OptInit 0 5) \<lparr> opt_img_min_shape := Some [4, 4],
        opt_n_size_list := Some [1024, 256, 64, 16, 16] \<rparr>) Conv2d =
     Inr [(\<lparr> pg_in_channels = 32, pg_img_shape = [8, 8], pg_kernel_size = 4, pg_dilation = 1,
             pg_r = 8, pg_n = 256, pg_drop_path = 0, pg_conv_op = Conv2d,
             pg_img_min_shape = [4, 4] \<rparr>,
           FFN 32 128 ''leakyrelu'' 0)] \<and>
   closest_k 8 \<in> set k_candidate_list \<and>
   length (k_list_of 2 8 5) = 5 \<and>
   max_dilation \<lparr> max_num = 8, max_k = 8, min_k = 2, k_list = [2, 4, 4, 8, 8],
       max_dilation = 2, window_size = [4, 4], window_size_n = 16 \<rparr> =
     prod_list [4, 4] div
       Max (set (k_list \<lparr> max_num = 8, max_k = 8, min_k = 2, k_list = [2, 4, 4, 8, 8],
         max_dilation = 2, window_size = [4, 4], window_size_n = 16 \<rparr>))"
proof -
  let ?P = "\<lparr> max_num = 8, max_k = 8, min_k = 2, k_list = [2, 4, 4, 8, 8], max_dilation = 2,
           window_size = [4, 4], window_size_n = 16 \<rparr>"
  let ?O = "(OptInit 0 5) \<lparr> opt_img_min_shape := Some [4, 4],
        opt_n_size_list := Some [1024, 256, 64, 16, 16] \<rparr>"
  let ?S = "[(\<lparr> sg_in_channels = 32, sg_img_shape = [8, 8], sg_kernel_size = 4, sg_dilation = 1,
             sg_r = 1, sg_n = 16, sg_drop_path = 0, sg_conv_op = Conv2d,
             sg_window_size = [4, 4], sg_shift_size = [2, 2] \<rparr>,
           FFN 32 128 ''leakyrelu'' 0)]"
  let ?Q = "[(\<lparr> pg_in_channels = 32, pg_img_shape = [8, 8], pg_kernel_size = 4, pg_dilation = 1,
             pg_r = 8, pg_n = 256, pg_drop_path = 0, pg_conv_op = Conv2d,
             pg_img_min_shape = [4, 4] \<rparr>,
           FFN 32 128 ''leakyrelu'' 0)]"
  have e1: "knn_setup Conv2d [4, 4] 5 = Inr ?P"
    by code_simp
  have e2: "SwinGNNBlocks_init 32 [8, 8] 1 ?O Conv2d = Inr ?S"
    by code_simp
  have e3: "PoolGNNBlocks_init 32 [8, 8] 1 0 ?O Conv2d = Inr ?Q"
    by code_simp
  from e1 e2 e3
    knn_parameter_selection [of 8 2 8 5 Conv2d "[4, 4]" ?P 32 "[8, 8]" 1 ?O ?S 0 ?Q]
  show ?thesis
    by blast
qed

section \<open>Which stages carry graph blocks\<close>

lemma encoder_stage_body_kind:
  assumes "encoder_stage_body si s input_channels stride = Inr body"
  shows "(s < si_n_conv_stages si \<longrightarrow> is_residual body) \<and>
         (si_n_conv_stages si \<le> s \<and> s < si_no_pool_gnn_stage_num si \<longrightarrow> is_residual_swin body) \<and>
         (si_n_conv_stages si \<le> s \<and> si_no_pool_gnn_stage_num si \<le> s \<longrightarrow>
            is_residual_pool_swin body)"
  using assms unfolding encoder_stage_body_def and_then_def
  by (auto split: sum.splits if_splits)

lemma encoder_stage_kind:
  assumes "encoder_stage si s input_channels = Inr (p, body)"
  shows "(s < si_n_conv_stages si \<longrightarrow> is_residual body) \<and>
         (si_n_conv_stages si \<le> s \<and> s < si_no_pool_gnn_stage_num si \<longrightarrow> is_residual_swin body) \<and>
         (si_n_conv_stages si \<le> s \<and> si_no_pool_gnn_stage_num si \<le> s \<longrightarrow>
            is_residual_pool_swin body)"
proof -
  from assms obtain stride where "encoder_stage_body si s input_channels stride = Inr body"
    unfolding encoder_stage_def and_then_def
    by (auto split: sum.splits option.splits if_splits)
  then show ?thesis by (rule encoder_stage_body_kind)
qed

lemma encoder_stages_loop_stages:
  "encoder_stages_loop si ss input_channels = Inr stages \<Longrightarrow>
   length stages = length ss \<and>
   (\<forall>j<length ss. \<exists>c. encoder_stage si (ss ! j) c = Inr (stages ! j))"
proof (induction ss arbitrary: input_channels stages)
  case Nil
  then show ?case by simp
next
  case (Cons s ss)
  from Cons.prems obtain stage features rest where
    st: "encoder_stage si s input_channels = Inr stage"
    and re: "encoder_stages_loop si ss features = Inr rest"
    and stages: "stages = stage # rest"
    by (auto simp: and_then_def split: sum.splits)
  from Cons.IH [OF re] st stages show ?case
    by (auto simp: nth_Cons split: nat.splits)
qed

lemma NexToU_Encoder_init_stages:
  assumes "NexToU_Encoder_init get_matching_pool_op a = Inr enc"
  shows "enc_n_swin_gnn_stages enc = 0 \<and>
         enc_no_pool_gnn_stage_num enc = ea_n_stages a - 4 \<and>
         enc_n_conv_stages enc = enc_no_pool_gnn_stage_num enc \<and>
         length (enc_stages enc) = nat (ea_n_stages a) \<and>
         (\<forall>s<length (enc_stages enc).
            (int s < ea_n_stages a - 4 \<longrightarrow> is_residual (snd (enc_stages enc ! s))) \<and>
            (ea_n_stages a - 4 \<le> int s \<longrightarrow> is_residual_pool_swin (snd (enc_stages enc ! s))) \<and>
            \<not> is_residual_swin (snd (enc_stages enc ! s)))"
proof -
  from assms obtain si c where
    loop: "encoder_stages_loop si (py_range (ea_n_stages a)) c = Inr (enc_stages enc)"
    and si: "si_n_conv_stages si = ea_n_stages a - 4"
      "si_no_pool_gnn_stage_num si = ea_n_stages a - 4"
    and f: "enc_n_swin_gnn_stages enc = 0" "enc_no_pool_gnn_stage_num enc = ea_n_stages a - 4"
      "enc_n_conv_stages enc = ea_n_stages a - 4"
    unfolding NexToU_Encoder_init_def Let_def and_then_def
    by (auto split: sum.splits if_splits prod.splits)
  from encoder_stages_loop_stages [OF loop]
  have len: "length (enc_stages enc) = nat (ea_n_stages a)"
    and each: "\<forall>j<nat (ea_n_stages a). \<exists>c. encoder_stage si (int j) c = Inr (enc_stages enc ! j)"
    by (simp_all add: py_range_def)
  have "(int s < ea_n_stages a - 4 \<longrightarrow> is_residual (snd (enc_stages enc ! s))) \<and>
        (ea_n_stages a - 4 \<le> int s \<longrightarrow> is_residual_pool_swin (snd (enc_stages enc ! s))) \<and>
        \<not> is_residual_swin (snd (enc_stages enc ! s))"
    if "s < length (enc_stages enc)" for s
  proof -
    from that len each obtain c where "encoder_stage si (int s) c = Inr (enc_stages enc ! s)"
      by auto
    then have k: "encoder_stage si (int s) c =
        Inr (fst (enc_stages enc ! s), snd (enc_stages enc ! s))"
      by simp
    from encoder_stage_kind [OF k] si show ?thesis
      by (cases "snd (enc_stages enc ! s)"; cases "int s < ea_n_stages a - 4") auto
  qed
  with f len show ?thesis by simp
qed




lemma decoder_stage_body_kind:
  assumes "decoder_stage_body di s skip = Inr body"
  shows "(s < di_n_stages_encoder di - di_no_pool_gnn_stage_num di \<longrightarrow>
            is_residual_pool_swin body) \<and>
         (di_n_stages_encoder di - di_no_pool_gnn_stage_num di \<le> s \<and>
          s < di_n_stages_encoder di - di_n_conv_stages di \<longrightarrow> is_residual_swin body) \<and>
         (di_n_stages_encoder di - di_no_pool_gnn_stage_num di \<le> s \<and>
          di_n_stages_encoder di - di_n_conv_stages di \<le> s \<longrightarrow> is_residual body)"
  using assms unfolding decoder_stage_body_def and_then_def Let_def
  by (auto split: sum.splits if_splits)



lemma decoder_stages_loop_stages:
  "decoder_stages_loop di ss = Inr (stages, transpconvs, seg_layers) \<Longrightarrow>
   length stages = length ss \<and>
   (\<forall>j<length ss. \<exists>skip. decoder_stage_body di (ss ! j) skip = Inr (stages ! j))"
proof (induction ss arbitrary: stages transpconvs seg_layers)
  case Nil
  then show ?case by simp
next
  case (Cons s ss)
  from Cons.prems obtain t stage g rest ts gs where
    st: "decoder_stage di s = Inr (t, stage, g)"
    and re: "decoder_stages_loop di ss = Inr (rest, ts, gs)"
    and stages: "stages = stage # rest"
    by (auto simp: and_then_def split: sum.splits prod.splits)
  from st obtain skip where "decoder_stage_body di s skip = Inr stage"
    unfolding decoder_stage_def and_then_def Let_def
    by (auto split: sum.splits)
  with Cons.IH [OF re] stages show ?case
    by (auto simp: nth_Cons split: nat.splits)
qed



lemma NexToU_Decoder_init_stages:
  assumes "NexToU_Decoder_init get_matching_convtransp d = Inr dec"
    and "n = length (enc_output_channels (da_encoder d))"
  shows "dec_n_swin_gnn_stages dec = 0 \<and>
         dec_no_pool_gnn_stage_num dec = int n - 4 \<and>
         dec_n_conv_stages dec = dec_no_pool_gnn_stage_num dec \<and>
         length (dec_stages dec) = n - 1 \<and>
         (\<forall>s. 1 \<le> s \<and> s < n \<longrightarrow>
            (s \<le> 3 \<longrightarrow> is_residual_pool_swin (dec_stages dec ! (s - 1))) \<and>
            (4 \<le> s \<longrightarrow> is_residual (dec_stages dec ! (s - 1))) \<and>
            \<not> is_residual_swin (dec_stages dec ! (s - 1)))"
proof -
  note init = NexToU_Decoder_init_def Let_def and_then_def
  have n: "length (enc_output_channels (da_encoder d)) = n"
    using assms(2) by simp
  have c: "int (length (per_stage_ints (da_n_conv_per_stage d) (int n - 1))) = int n - 1"
    using assms(1) by (simp add: NexToU_Decoder_init_def Let_def n split: if_splits)
  obtain tc where tc: "get_matching_convtransp (enc_conv_op (da_encoder d)) = Inr tc"
    using assms(1)
    by (cases "get_matching_convtransp (enc_conv_op (da_encoder d))")
      (simp_all add: init split: if_splits)
  obtain strides where strides: "da_strides d = AxesList strides"
    using assms(1) tc by (cases "da_strides d") (simp_all add: init split: if_splits)
  obtain shapes sizes min_shape where shapes:
    "decoder_img_shapes (enc_conv_op (da_encoder d)) (da_patch_size d) strides =
       Inr (shapes, sizes, min_shape)"
    using assms(1) tc strides
    by (cases "decoder_img_shapes (enc_conv_op (da_encoder d)) (da_patch_size d) strides")
      (auto simp add: init split: if_splits)
  define di :: "('a, 'b) decoder_inputs" where
    "di = \<lparr> di_encoder = da_encoder d, di_n_stages_encoder = int n, di_transpconv_op = tc,
            di_num_classes = da_num_classes d,
            di_n_conv_per_stage = per_stage_ints (da_n_conv_per_stage d) (int n - 1),
            di_img_shape_list = shapes,
            di_opt = (OptInit 0 (length strides))
              \<lparr> opt_img_min_shape := Some min_shape, opt_n_size_list := Some sizes \<rparr>,
            di_n_conv_stages = int n - 4, di_no_pool_gnn_stage_num = int n - 4 \<rparr>"
  have di: "di_n_stages_encoder di = int n" "di_n_conv_stages di = int n - 4"
      "di_no_pool_gnn_stage_num di = int n - 4"
    by (simp_all add: di_def)
  obtain stages ts gs where
    l: "decoder_stages_loop di (map int [1..<n]) = Inr (stages, ts, gs)"
    using assms(1)
    by (cases "decoder_stages_loop di (map int [1..<n])")
      (auto simp add: init tc strides shapes di_def n c)
  have dec: "dec = \<lparr> dec_deep_supervision = da_deep_supervision d,
                       dec_encoder = da_encoder d, dec_num_classes = da_num_classes d,
                       dec_opt = di_opt di, dec_n_swin_gnn_stages = 0,
                       dec_no_pool_gnn_stage_num = int n - 4, dec_n_conv_stages = int n - 4,
                       dec_stages = stages, dec_transpconvs = ts,
                       dec_seg_layers = gs \<rparr>"
    using assms(1) l by (auto simp add: init tc strides shapes di_def n c)
  have loop: "decoder_stages_loop di (map int [1..<n]) =
      Inr (dec_stages dec, dec_transpconvs dec, dec_seg_layers dec)"
    and f: "dec_n_swin_gnn_stages dec = 0" "dec_no_pool_gnn_stage_num dec = int n - 4"
      "dec_n_conv_stages dec = int n - 4"
    using l by (simp_all add: dec)
  from decoder_stages_loop_stages [OF loop]
  have len: "length (dec_stages dec) = n - 1"
    and each: "\<forall>j<n - 1. \<exists>skip. decoder_stage_body di (int (1 + j)) skip = Inr (dec_stages dec ! j)"
    by simp_all
  have "(s \<le> 3 \<longrightarrow> is_residual_pool_swin (dec_stages dec ! (s - 1))) \<and>
        (4 \<le> s \<longrightarrow> is_residual (dec_stages dec ! (s - 1))) \<and>
        \<not> is_residual_swin (dec_stages dec ! (s - 1))"
    if "1 \<le> s \<and> s < n" for s
  proof -
    from that have "s - 1 < n - 1" "1 + (s - 1) = s" by auto
    with each obtain skip where k:
      "decoder_stage_body di (int s) skip = Inr (dec_stages dec ! (s - 1))"
      by metis
    from decoder_stage_body_kind [OF k] di show ?thesis
      by (cases "dec_stages dec ! (s - 1)"; cases "s \<le> 3") auto
  qed
  with f len show ?thesis by simp
qed



text \<open>
  Claim C4. A constructed \<open>NexToU_Encoder\<close> has \<open>n_swin_gnn_stages = 0\<close> and
  \<open>n_conv_stages = no_pool_gnn_stage_num = n_stages - 4\<close>; it has one stage per
  \<open>s\<close> in \<open>range(n_stages)\<close>; stage \<open>s < n_stages - 4\<close> is residual blocks
  alone, stage \<open>s \<ge> n_stages - 4\<close> is residual blocks followed by
  \<open>PoolGNNBlocks\<close> and \<open>SwinGNNBlocks\<close>, and no stage is residual blocks
  followed by \<open>SwinGNNBlocks\<close> only. A constructed \<open>NexToU_Decoder\<close> on an
  encoder of \<open>n\<close> stages has the same three counts; its stage \<open>s\<close> (the entry
  \<open>s - 1\<close> of \<open>stages\<close>, for \<open>1 \<le> s < n\<close>) is residual blocks followed by
  \<open>PoolGNNBlocks\<close> and \<open>SwinGNNBlocks\<close> for \<open>s \<le> 3\<close>, residual blocks
  alone for \<open>s \<ge> 4\<close>, and never residual blocks followed by \<open>SwinGNNBlocks\<close>
  only.
\<close>

theorem stage_composition:
  "(NexToU_Encoder_init get_matching_pool_op a = Inr enc \<longrightarrow>
      enc_n_swin_gnn_stages enc = 0 \<and>
      enc_no_pool_gnn_stage_num enc = ea_n_stages a - 4 \<and>
      enc_n_conv_stages enc = enc_no_pool_gnn_stage_num enc \<and>
      length (enc_stages enc) = nat (ea_n_stages a) \<and>
      (\<forall>s<length (enc_stages enc).
         (int s < ea_n_stages a - 4 \<longrightarrow> is_residual (snd (enc_stages enc ! s))) \<and>
         (ea_n_stages a - 4 \<le> int s \<longrightarrow> is_residual_pool_swin (snd (enc_stages enc ! s))) \<and>
         \<not> is_residual_swin (snd (enc_stages enc ! s)))) \<and>
   (NexToU_Decoder_init get_matching_convtransp d = Inr dec \<and>
    n = length (enc_output_channels (da_encoder d)) \<longrightarrow>
      dec_n_swin_gnn_stages dec = 0 \<and>
      dec_no_pool_gnn_stage_num dec = int n - 4 \<and>
      dec_n_conv_stages dec = dec_no_pool_gnn_stage_num dec \<and>
      length (dec_stages dec) = n - 1 \<and>
      (\<forall>s. 1 \<le> s \<and> s < n \<longrightarrow>
         (s \<le> 3 \<longrightarrow> is_residual_pool_swin (dec_stages dec ! (s - 1))) \<and>
         (4 \<le> s \<longrightarrow> is_residual (dec_stages dec ! (s - 1))) \<and>
         \<not> is_residual_swin (dec_stages dec ! (s - 1))))"
  using NexToU_Encoder_init_stages [of get_matching_pool_op a enc]
    NexToU_Decoder_init_stages [of get_matching_convtransp d dec n]
  by blast

text \<open>The theorem at the five-stage configuration: both constructors return.\<close>

theorem stage_composition_witness:
  "(\<exists>enc. NexToU_Encoder_init (\<lambda>c t. Inr ()) example_encoder_args = Inr enc \<and>
      length (enc_stages enc) = 5 \<and>
      is_residual (snd (enc_stages enc ! 0)) \<and>
      is_residual_pool_swin (snd (enc_stages enc ! 1)) \<and>
      is_residual_pool_swin (snd (enc_stages enc ! 4)) \<and>
      enc_n_conv_stages enc = 1 \<and> enc_no_pool_gnn_stage_num enc = 1) \<and>
   (\<exists>dec. NexToU_Decoder_init (\<lambda>c. Inr ()) example_decoder_args = Inr dec \<and>
      length (dec_stages dec) = 4 \<and>
      is_residual_pool_swin (dec_stages dec ! 0) \<and>
      is_residual_pool_swin (dec_stages dec ! 2) \<and>
      is_residual (dec_stages dec ! 3) \<and>
      dec_n_conv_stages dec = 1 \<and> dec_no_pool_gnn_stage_num dec = 1)"
proof -
  have "\<not> isl (NexToU_Encoder_init (\<lambda>c t. Inr ()) example_encoder_args)"
    by code_simp
  then obtain enc where enc: "NexToU_Encoder_init (\<lambda>c t. Inr ()) example_encoder_args = Inr enc"
    by (cases "NexToU_Encoder_init (\<lambda>c t. Inr ()) example_encoder_args") auto
  have "\<not> isl (NexToU_Decoder_init (\<lambda>c. Inr ()) example_decoder_args)"
    by code_simp
  then obtain dec where dec: "NexToU_Decoder_init (\<lambda>c. Inr ()) example_decoder_args = Inr dec"
    by (cases "NexToU_Decoder_init (\<lambda>c. Inr ()) example_decoder_args") auto
  have n: "5 = length (enc_output_channels (da_encoder example_decoder_args))"
    by (simp add: example_decoder_args_def)
  have n5: "ea_n_stages example_encoder_args = 5"
    by (simp add: example_encoder_args_def)
  note t = stage_composition [of "\<lambda>c t. Inr ()" example_encoder_args enc "\<lambda>c. Inr ()"
      example_decoder_args dec 5]
  from t enc n5 have el: "length (enc_stages enc) = 5"
    and ek: "\<And>s. s < 5 \<Longrightarrow> (int s < 1 \<longrightarrow> is_residual (snd (enc_stages enc ! s))) \<and>
         (1 \<le> int s \<longrightarrow> is_residual_pool_swin (snd (enc_stages enc ! s)))"
    and ef: "enc_n_conv_stages enc = 1" "enc_no_pool_gnn_stage_num enc = 1"
    by simp_all
  from t dec n have dl: "length (dec_stages dec) = 4"
    and dk: "\<And>s. 1 \<le> s \<and> s < 5 \<Longrightarrow>
         (s \<le> 3 \<longrightarrow> is_residual_pool_swin (dec_stages dec ! (s - 1))) \<and>
         (4 \<le> s \<longrightarrow> is_residual (dec_stages dec ! (s - 1)))"
    and df: "dec_n_conv_stages dec = 1" "dec_no_pool_gnn_stage_num dec = 1"
    by simp_all
  from ek [of 0] ek [of 1] ek [of 4] dk [of 1] dk [of 3] dk [of 4] enc dec el ef dl df
  show ?thesis by simp
qed

section \<open>The pooling rule\<close>

lemma foldl_mult_prod_list: "foldl (\<lambda>n h. n * h) a xs = a * prod_list (xs :: int list)"
  by (induction xs arbitrary: a) (simp_all add: mult.assoc)

lemma foldl_mult4_prod_list:
  "foldl (\<lambda>n h. n * h * 4) a xs = a * prod_list (xs :: int list) * 4 ^ length xs"
  by (induction xs arbitrary: a) (simp_all add: algebra_simps)

lemma pool_size_code:
  "(if prod_list m * 4 ^ length m < prod_list img_shape
    then map (\<lambda>h. if h mod 2 = 0 then 2 else 1) img_shape
    else map (\<lambda>h. 1) img_shape) = spec_pool_size img_shape m"
  by (simp add: spec_pool_size_def even_iff_mod_2_eq_zero)

lemmas pool_size_simps = foldl_mult_prod_list foldl_mult4_prod_list pool_size_code

lemma PoolDyGraphConv_init_pool_size:
  assumes "PoolDyGraphConv_init in_channels out_channels kernel_size dilation conv r conv_op
     (Some img_shape) (Some img_min_shape) = Inr g"
  shows "gc_pool_size g = spec_pool_size img_shape img_min_shape"
  using assms
  by (auto simp: PoolDyGraphConv_init_def Let_def pool_size_simps split: if_splits)

lemma PoolGrapher_init_pool_size:
  assumes "PoolGrapher_init relative_pos_embed in_channels img_shape kernel_size dilation conv r
     relative_pos conv_op (Some img_min_shape) = Inr gr"
  shows "gr_pool_size gr = spec_pool_size img_shape img_min_shape \<and>
         gc_pool_size (gr_graph_conv gr) = spec_pool_size img_shape img_min_shape \<and>
         gr_n gr = prod_list img_shape div prod_list (gr_pool_size gr)"
proof -
  from assms obtain g where g: "PoolDyGraphConv_init in_channels (in_channels * 2) kernel_size
      dilation conv r conv_op (Some img_shape) (Some img_min_shape) = Inr g"
    unfolding PoolGrapher_init_def and_then_def by (auto split: sum.splits)
  from assms g obtain n rp where
    n: "floordiv (prod_list img_shape) (prod_list (spec_pool_size img_shape img_min_shape)) = Inr n"
    and gr: "gr = \<lparr> gr_channels = in_channels, gr_r = r, gr_conv_op = conv_op,
                  gr_img_shape = img_shape, gr_graph_conv = g,
                  gr_pool_size = spec_pool_size img_shape img_min_shape, gr_n = n,
                  gr_relative_pos = rp \<rparr>"
    by (auto simp: PoolGrapher_init_def Let_def pool_size_simps and_then_def split: sum.splits)
  from n have "n = prod_list img_shape div prod_list (spec_pool_size img_shape img_min_shape)"
    by (auto simp: floordiv_def split: if_splits)
  with gr PoolDyGraphConv_init_pool_size [OF g] show ?thesis by simp
qed


section \<open>Shapes through the forward pass\<close>

lemma pool_positions: "1 \<le> p \<Longrightarrow> p \<le> h \<Longrightarrow> (h - p) div p + 1 = h div (p :: int)"
  by (metis add.commute diff_add_cancel div_add_self1 not_one_le_zero)

lemma reshape_nodes:
  assumes "reshape (B # C # spatial) [B, C, - 1, 1] = Inr r" and "0 \<le> B" and "0 \<le> C"
  shows "1 \<le> B \<and> 1 \<le> C \<and> r = [B, C, prod_list spatial, 1]"
proof -
  have neg: "B \<noteq> - 1" "C \<noteq> - 1" using assms(2,3) by auto
  from assms(1) neg have k: "B * C \<noteq> 0" and r: "r = [B, C, B * C * prod_list spatial div (B * C), 1]"
    by (auto simp: reshape_def Let_def mult.assoc split: if_splits)
  from k assms(2,3) have "1 \<le> B" "1 \<le> C"
    by (auto simp: less_le)
  with r k show ?thesis by (simp add: mult.assoc)
qed

lemma reshape_grid2:
  assumes "reshape [B, c, n, 1] [B, - 1, hp, wp] = Inr r"
    and "1 \<le> B" and "1 \<le> hp" and "1 \<le> wp" and "n = hp * wp"
  shows "r = [B, c, hp, wp]"
proof -
  have neg: "B \<noteq> - 1" "hp \<noteq> - 1" "wp \<noteq> - 1" using assms(2-4) by auto
  have k: "B * (hp * wp) \<noteq> 0" using assms(2-4) by auto
  have "B * (c * (hp * wp)) div (B * (hp * wp)) = c"
    using k by (metis mult.commute mult.left_commute nonzero_mult_div_cancel_left)
  with assms(1) neg k assms(5) show ?thesis
    by (auto simp: reshape_def Let_def split: if_splits)
qed

lemma reshape_grid3:
  assumes "reshape [B, c, n, 1] [B, - 1, sp, hp, wp] = Inr r"
    and "1 \<le> B" and "1 \<le> sp" and "1 \<le> hp" and "1 \<le> wp" and "n = sp * (hp * wp)"
  shows "r = [B, c, sp, hp, wp]"
proof -
  have neg: "B \<noteq> - 1" "sp \<noteq> - 1" "hp \<noteq> - 1" "wp \<noteq> - 1" using assms(2-5) by auto
  have k: "B * (sp * (hp * wp)) \<noteq> 0" using assms(2-5) by auto
  have "B * (c * (sp * (hp * wp))) div (B * (sp * (hp * wp))) = c"
    using k by (metis mult.commute mult.left_commute nonzero_mult_div_cancel_left)
  with assms(1) neg k assms(6) show ?thesis
    by (auto simp: reshape_def Let_def split: if_splits)
qed


lemma forward_steps_2d:
  assumes "PoolDyGraphConv_forward knn gcf self [B, C, H, W] rp = Inr out"
    and "gc_conv_op self = Conv2d"
  shows "\<exists>xp y x1 e x2 ic hp wp x3 ic'.
    pool_shape 2 (gc_pool_size self) [B, C, H, W] = Inr xp \<and>
    reshape xp [B, C, - 1, 1] = Inr x1 \<and>
    knn x1 y rp = Inr e \<and>
    gcf x1 e y = Inr x2 \<and>
    cat_channels x1 x1 = Inr ic \<and>
    floordiv H (gc_pool_size self ! 0) = Inr hp \<and>
    floordiv W (gc_pool_size self ! 1) = Inr wp \<and>
    reshape x2 [B, - 1, hp, wp] = Inr x3 \<and>
    reshape ic [B, - 1, hp, wp] = Inr ic' \<and>
    max_unpool_shape 2 (gc_pool_size self) x3 ic' = Inr out"
  using assms
  unfolding PoolDyGraphConv_forward_def and_then_def
  by (auto simp: Let_def item_def split: sum.splits if_splits list.splits)

lemma forward_steps_3d:
  assumes "PoolDyGraphConv_forward knn gcf self [B, C, S, H, W] rp = Inr out"
    and "gc_conv_op self = Conv3d"
  shows "\<exists>xp y x1 e x2 ic sp hp wp x3 ic'.
    pool_shape 3 (gc_pool_size self) [B, C, S, H, W] = Inr xp \<and>
    reshape xp [B, C, - 1, 1] = Inr x1 \<and>
    knn x1 y rp = Inr e \<and>
    gcf x1 e y = Inr x2 \<and>
    cat_channels x1 x1 = Inr ic \<and>
    floordiv S (gc_pool_size self ! 0) = Inr sp \<and>
    floordiv H (gc_pool_size self ! 1) = Inr hp \<and>
    floordiv W (gc_pool_size self ! 2) = Inr wp \<and>
    reshape x2 [B, - 1, sp, hp, wp] = Inr x3 \<and>
    reshape ic [B, - 1, sp, hp, wp] = Inr ic' \<and>
    max_unpool_shape 3 (gc_pool_size self) x3 ic' = Inr out"
  using assms
  unfolding PoolDyGraphConv_forward_def and_then_def
  by (auto simp: Let_def item_def split: sum.splits if_splits list.splits)


lemma pool_shape_2d:
  assumes "pool_shape 2 ps [B, C, H, W] = Inr xp"
  shows "\<exists>p0 p1. ps = [p0, p1] \<and> 1 \<le> p0 \<and> p0 \<le> H \<and> 1 \<le> p1 \<and> p1 \<le> W \<and>
           xp = [B, C, H div p0, W div p1]"
proof -
  from assms have "length ps = 2"
    by (auto simp: pool_shape_def split: if_splits)
  then obtain p0 p1 where ps: "ps = [p0, p1]"
    by (cases ps; cases "tl ps"; cases "tl (tl ps)") auto
  with assms show ?thesis
    by (auto simp: pool_shape_def pool_positions split: if_splits)
qed

lemma pool_shape_3d:
  assumes "pool_shape 3 ps [B, C, S, H, W] = Inr xp"
  shows "\<exists>p0 p1 p2. ps = [p0, p1, p2] \<and> 1 \<le> p0 \<and> p0 \<le> S \<and> 1 \<le> p1 \<and> p1 \<le> H \<and>
           1 \<le> p2 \<and> p2 \<le> W \<and> xp = [B, C, S div p0, H div p1, W div p2]"
proof -
  from assms have "length ps = 3"
    by (auto simp: pool_shape_def split: if_splits)
  then obtain p0 p1 p2 where ps: "ps = [p0, p1, p2]"
    by (cases ps; cases "tl ps"; cases "tl (tl ps)"; cases "tl (tl (tl ps))") auto
  with assms show ?thesis
    by (auto simp: pool_shape_def pool_positions split: if_splits)
qed

lemma div_positions: "1 \<le> p \<Longrightarrow> p \<le> h \<Longrightarrow> 1 \<le> h div (p :: int)"
  using pos_imp_zdiv_pos_iff [of p h] by linarith

lemma unpool_positions: "(h - 1) * p + p = h * (p :: int)"
  by (simp add: algebra_simps)

lemma forward_2d_shape:
  assumes f: "PoolDyGraphConv_forward knn gcf self [B, C, H, W] rp = Inr out"
    and c: "gc_conv_op self = Conv2d" and nn: "0 \<le> B" "0 \<le> C"
  shows "\<exists>p0 p1 y e. gc_pool_size self = [p0, p1] \<and>
           1 \<le> p0 \<and> p0 \<le> H \<and> 1 \<le> p1 \<and> p1 \<le> W \<and>
           knn [B, C, (H div p0) * (W div p1), 1] y rp = Inr e \<and>
           out = [B, 2 * C, H div p0 * p0, W div p1 * p1]"
proof -
  from forward_steps_2d [OF f c] obtain xp y x1 e x2 ic hp wp x3 ic' where
    xp: "pool_shape 2 (gc_pool_size self) [B, C, H, W] = Inr xp"
    and x1: "reshape xp [B, C, - 1, 1] = Inr x1"
    and e: "knn x1 y rp = Inr e"
    and ic: "cat_channels x1 x1 = Inr ic"
    and hp: "floordiv H (gc_pool_size self ! 0) = Inr hp"
    and wp: "floordiv W (gc_pool_size self ! 1) = Inr wp"
    and ic': "reshape ic [B, - 1, hp, wp] = Inr ic'"
    and out: "max_unpool_shape 2 (gc_pool_size self) x3 ic' = Inr out"
    by blast
  from pool_shape_2d [OF xp] obtain p0 p1 where
    ps: "gc_pool_size self = [p0, p1]" and b: "1 \<le> p0" "p0 \<le> H" "1 \<le> p1" "p1 \<le> W"
    and xpv: "xp = [B, C, H div p0, W div p1]"
    by blast
  from reshape_nodes [of B C "[H div p0, W div p1]" x1] x1 xpv nn
  have B: "1 \<le> B" and x1v: "x1 = [B, C, (H div p0) * (W div p1), 1]"
    by simp_all
  from hp wp ps b have hpv: "hp = H div p0" and wpv: "wp = W div p1"
    by (auto simp: floordiv_def split: if_splits)
  from ic x1v have icv: "ic = [B, 2 * C, (H div p0) * (W div p1), 1]"
    by (auto simp: cat_channels_def split: if_splits)
  from reshape_grid2 [of B "2 * C" "(H div p0) * (W div p1)" "H div p0" "W div p1" ic']
    ic' icv hpv wpv B b div_positions
  have ic'v: "ic' = [B, 2 * C, H div p0, W div p1]"
    by simp
  from out ic'v ps have "out = [B, 2 * C, H div p0 * p0, W div p1 * p1]"
    by (auto simp: max_unpool_shape_def unpool_positions split: if_splits)
  with ps b e x1v show ?thesis by blast
qed

lemma forward_3d_shape:
  assumes f: "PoolDyGraphConv_forward knn gcf self [B, C, S, H, W] rp = Inr out"
    and c: "gc_conv_op self = Conv3d" and nn: "0 \<le> B" "0 \<le> C"
  shows "\<exists>p0 p1 p2 y e. gc_pool_size self = [p0, p1, p2] \<and>
           1 \<le> p0 \<and> p0 \<le> S \<and> 1 \<le> p1 \<and> p1 \<le> H \<and> 1 \<le> p2 \<and> p2 \<le> W \<and>
           knn [B, C, (S div p0) * ((H div p1) * (W div p2)), 1] y rp = Inr e \<and>
           out = [B, 2 * C, S div p0 * p0, H div p1 * p1, W div p2 * p2]"
proof -
  from forward_steps_3d [OF f c] obtain xp y x1 e x2 ic sp hp wp x3 ic' where
    xp: "pool_shape 3 (gc_pool_size self) [B, C, S, H, W] = Inr xp"
    and x1: "reshape xp [B, C, - 1, 1] = Inr x1"
    and e: "knn x1 y rp = Inr e"
    and ic: "cat_channels x1 x1 = Inr ic"
    and sp: "floordiv S (gc_pool_size self ! 0) = Inr sp"
    and hp: "floordiv H (gc_pool_size self ! 1) = Inr hp"
    and wp: "floordiv W (gc_pool_size self ! 2) = Inr wp"
    and ic': "reshape ic [B, - 1, sp, hp, wp] = Inr ic'"
    and out: "max_unpool_shape 3 (gc_pool_size self) x3 ic' = Inr out"
    by blast
  from pool_shape_3d [OF xp] obtain p0 p1 p2 where
    ps: "gc_pool_size self = [p0, p1, p2]"
    and b: "1 \<le> p0" "p0 \<le> S" "1 \<le> p1" "p1 \<le> H" "1 \<le> p2" "p2 \<le> W"
    and xpv: "xp = [B, C, S div p0, H div p1, W div p2]"
    by blast
  from reshape_nodes [of B C "[S div p0, H div p1, W div p2]" x1] x1 xpv nn
  have B: "1 \<le> B" and x1v: "x1 = [B, C, (S div p0) * ((H div p1) * (W div p2)), 1]"
    by simp_all
  from sp hp wp ps b have spv: "sp = S div p0" and hpv: "hp = H div p1" and wpv: "wp = W div p2"
    by (auto simp: floordiv_def split: if_splits)
  from ic x1v have icv: "ic = [B, 2 * C, (S div p0) * ((H div p1) * (W div p2)), 1]"
    by (auto simp: cat_channels_def split: if_splits)
  from reshape_grid3 [of B "2 * C" "(S div p0) * ((H div p1) * (W div p2))" "S div p0"
      "H div p1" "W div p2" ic']
    ic' icv spv hpv wpv B b div_positions
  have ic'v: "ic' = [B, 2 * C, S div p0, H div p1, W div p2]"
    by simp
  from out ic'v ps have "out = [B, 2 * C, S div p0 * p0, H div p1 * p1, W div p2 * p2]"
    by (auto simp: max_unpool_shape_def unpool_positions split: if_splits)
  with ps b e x1v show ?thesis by blast
qed


lemma spec_pool_size_nth:
  "length (spec_pool_size img_shape m) = length img_shape \<and>
   (\<forall>i<length img_shape. spec_pool_size img_shape m ! i =
      (if prod_list img_shape > prod_list m * 4 ^ length m \<and> even (img_shape ! i)
       then 2 else 1))"
  by (simp add: spec_pool_size_def)

lemma forward_rank:
  assumes "PoolDyGraphConv_forward knn gcf self x rp = Inr out"
  shows "gc_conv_op self = Conv2d \<and> (\<exists>B C H W. x = [B, C, H, W]) \<or>
         gc_conv_op self = Conv3d \<and> (\<exists>B C S H W. x = [B, C, S, H, W])"
  using assms unfolding PoolDyGraphConv_forward_def and_then_def
  by (cases "gc_conv_op self") (auto split: list.splits)

lemma div_mult_self_iff: "1 \<le> p \<Longrightarrow> h div p * p = h \<longleftrightarrow> p dvd (h :: int)"
  by (metis dvd_div_mult_self dvd_triv_right)

lemma forward_shape:
  assumes f: "PoolDyGraphConv_forward knn gcf self x rp = Inr out"
    and x: "x = B # C # spatial" and nn: "0 \<le> B" "0 \<le> C"
  shows "length (gc_pool_size self) = length spatial \<and>
         (\<exists>y e. knn [B, C, prod_list (map2 (div) spatial (gc_pool_size self)), 1] y rp = Inr e) \<and>
         out = B # 2 * C # map2 (\<lambda>h p. h div p * p) spatial (gc_pool_size self) \<and>
         (drop 2 out = spatial \<longleftrightarrow>
            (\<forall>i<length spatial. gc_pool_size self ! i dvd spatial ! i))"
  using forward_rank [OF f]
proof (elim disjE conjE exE)
  fix B' C' H W
  assume c: "gc_conv_op self = Conv2d" and x': "x = [B', C', H, W]"
  with x have s: "spatial = [H, W]" and x2: "x = [B, C, H, W]" by simp_all
  from forward_2d_shape [OF f [unfolded x2] c nn] obtain p0 p1 y e where
    ps: "gc_pool_size self = [p0, p1]" and b: "1 \<le> p0" "1 \<le> p1"
    and e: "knn [B, C, (H div p0) * (W div p1), 1] y rp = Inr e"
    and out: "out = [B, 2 * C, H div p0 * p0, W div p1 * p1]"
    by blast
  have "(\<forall>i<length spatial. gc_pool_size self ! i dvd spatial ! i) \<longleftrightarrow> p0 dvd H \<and> p1 dvd W"
    by (auto simp: s ps less_Suc_eq numeral_2_eq_2)
  with ps b e out s show ?thesis
    by (auto simp: div_mult_self_iff)
next
  fix B' C' S H W
  assume c: "gc_conv_op self = Conv3d" and x': "x = [B', C', S, H, W]"
  with x have s: "spatial = [S, H, W]" and x2: "x = [B, C, S, H, W]" by simp_all
  from forward_3d_shape [OF f [unfolded x2] c nn] obtain p0 p1 p2 y e where
    ps: "gc_pool_size self = [p0, p1, p2]" and b: "1 \<le> p0" "1 \<le> p1" "1 \<le> p2"
    and e: "knn [B, C, (S div p0) * ((H div p1) * (W div p2)), 1] y rp = Inr e"
    and out: "out = [B, 2 * C, S div p0 * p0, H div p1 * p1, W div p2 * p2]"
    by blast
  have "(\<forall>i<length spatial. gc_pool_size self ! i dvd spatial ! i) \<longleftrightarrow>
      p0 dvd S \<and> p1 dvd H \<and> p2 dvd W"
    by (auto simp: s ps less_Suc_eq numeral_3_eq_3)
  with ps b e out s show ?thesis
    by (auto simp: div_mult_self_iff)
qed

text \<open>
  Claim C7, amended. In \<open>PoolDyGraphConv.__init__\<close> and \<open>PoolGrapher.__init__\<close>,
  with \<open>n\<close> the product of \<open>img_shape\<close> and \<open>n_small\<close> the product of
  \<open>img_min_shape\<close> times \<open>4 ^ d\<close> (\<open>d\<close> the number of entries of
  \<open>img_min_shape\<close>), \<open>pool_size[i]\<close> is 2 if \<open>n > n_small\<close> and
  \<open>img_shape[i]\<close> is even, and 1 otherwise; \<open>PoolGrapher.n\<close> is the product of
  \<open>img_shape\<close> floor-divided by the product of \<open>pool_size\<close>. When
  \<open>PoolDyGraphConv.forward\<close> returns on an input of shape \<open>(B, C, H_1, ..)\<close>, the
  kNN graph was built on the max-pooled nodes (\<open>H_i // pool_size[i]\<close> per axis), and
  the output has \<open>(H_i // pool_size[i]) * pool_size[i]\<close> positions on axis \<open>i\<close>:
  the pre-pooling spatial size if and only if every \<open>pool_size[i]\<close> divides
  \<open>H_i\<close>.
\<close>

theorem pooling_rule:
  "(PoolDyGraphConv_init in_channels out_channels kernel_size dilation conv r conv_op
      (Some img_shape) (Some img_min_shape) = Inr g \<longrightarrow>
      length (gc_pool_size g) = length img_shape \<and>
      (\<forall>i<length img_shape. gc_pool_size g ! i =
         (if prod_list img_shape > prod_list img_min_shape * 4 ^ length img_min_shape \<and>
             even (img_shape ! i)
          then 2 else 1))) \<and>
   (PoolGrapher_init relative_pos_embed in_channels img_shape kernel_size dilation conv r
      relative_pos conv_op (Some img_min_shape) = Inr gr \<longrightarrow>
      length (gr_pool_size gr) = length img_shape \<and>
      (\<forall>i<length img_shape. gr_pool_size gr ! i =
         (if prod_list img_shape > prod_list img_min_shape * 4 ^ length img_min_shape \<and>
             even (img_shape ! i)
          then 2 else 1)) \<and>
      gc_pool_size (gr_graph_conv gr) = gr_pool_size gr \<and>
      gr_n gr = prod_list img_shape div prod_list (gr_pool_size gr)) \<and>
   (PoolDyGraphConv_forward dilated_knn_graph graph_conv_forward self x rp = Inr out \<and>
    x = B # C # spatial \<and> 0 \<le> B \<and> 0 \<le> C \<longrightarrow>
      length (gc_pool_size self) = length spatial \<and>
      (\<exists>y e. dilated_knn_graph
                [B, C, prod_list (map2 (div) spatial (gc_pool_size self)), 1] y rp = Inr e) \<and>
      out = B # 2 * C # map2 (\<lambda>h p. h div p * p) spatial (gc_pool_size self) \<and>
      (drop 2 out = spatial \<longleftrightarrow>
         (\<forall>i<length spatial. gc_pool_size self ! i dvd spatial ! i)))"
proof (intro conjI impI)
  assume "PoolDyGraphConv_init in_channels out_channels kernel_size dilation conv r conv_op
      (Some img_shape) (Some img_min_shape) = Inr g"
  from PoolDyGraphConv_init_pool_size [OF this] spec_pool_size_nth [of img_shape img_min_shape]
  show "length (gc_pool_size g) = length img_shape"
    and "\<forall>i<length img_shape. gc_pool_size g ! i =
         (if prod_list img_shape > prod_list img_min_shape * 4 ^ length img_min_shape \<and>
             even (img_shape ! i)
          then 2 else 1)"
    by simp_all
next
  assume "PoolGrapher_init relative_pos_embed in_channels img_shape kernel_size dilation conv r
      relative_pos conv_op (Some img_min_shape) = Inr gr"
  from PoolGrapher_init_pool_size [OF this] spec_pool_size_nth [of img_shape img_min_shape]
  show "length (gr_pool_size gr) = length img_shape"
    and "\<forall>i<length img_shape. gr_pool_size gr ! i =
         (if prod_list img_shape > prod_list img_min_shape * 4 ^ length img_min_shape \<and>
             even (img_shape ! i)
          then 2 else 1)"
    and "gc_pool_size (gr_graph_conv gr) = gr_pool_size gr"
    and "gr_n gr = prod_list img_shape div prod_list (gr_pool_size gr)"
    by simp_all
next
  assume a: "PoolDyGraphConv_forward dilated_knn_graph graph_conv_forward self x rp = Inr out \<and>
    x = B # C # spatial \<and> 0 \<le> B \<and> 0 \<le> C"
  then have f: "PoolDyGraphConv_forward dilated_knn_graph graph_conv_forward self x rp = Inr out"
    and x: "x = B # C # spatial" and nn: "0 \<le> B" "0 \<le> C"
    by blast+
  from forward_shape [OF f x nn]
  show "length (gc_pool_size self) = length spatial"
    and "\<exists>y e. dilated_knn_graph
                [B, C, prod_list (map2 (div) spatial (gc_pool_size self)), 1] y rp = Inr e"
    and "out = B # 2 * C # map2 (\<lambda>h p. h div p * p) spatial (gc_pool_size self)"
    and "drop 2 out = spatial \<longleftrightarrow> (\<forall>i<length spatial. gc_pool_size self ! i dvd spatial ! i)"
    by blast+
qed

text \<open>
  The theorem at a stage of 32 by 32 over a smallest feature map of 4 by 4, with a graph
  convolution that doubles the channels.
\<close>

theorem pooling_rule_witness:
  "PoolDyGraphConv_init 64 128 4 1 ''mr'' 8 Conv2d (Some [32, 32]) (Some [4, 4]) =
     Inr \<lparr> gc_k = 4, gc_d = 1, gc_r = 8, gc_conv_op = Conv2d, gc_pool_size = [2, 2] \<rparr> \<and>
   PoolGrapher_init (\<lambda>c channels n size. Inr size) 64 [32, 32] 4 1 ''mr'' 8 True Conv2d
       (Some [4, 4]) =
     Inr \<lparr> gr_channels = 64, gr_r = 8, gr_conv_op = Conv2d, gr_img_shape = [32, 32],
           gr_graph_conv =
             \<lparr> gc_k = 4, gc_d = 1, gc_r = 8, gc_conv_op = Conv2d, gc_pool_size = [2, 2] \<rparr>,
           gr_pool_size = [2, 2], gr_n = 256, gr_relative_pos = Some (256, 4) \<rparr> \<and>
   PoolDyGraphConv_forward (\<lambda>x y rp. Inr ()) (\<lambda>x e y. Inr [x ! 0, 2 * x ! 1, x ! 2, 1])
       \<lparr> gc_k = 4, gc_d = 1, gc_r = 8, gc_conv_op = Conv2d, gc_pool_size = [2, 2] \<rparr>
       [2, 64, 32, 32] () =
     Inr [2, 128, 32, 32] \<and>
   [2, 128, 32, 32] = (2 :: int) # 2 * 64 # map2 (\<lambda>h p. h div p * p) [32, 32] [2, 2] \<and>
   (256 :: int) = prod_list [32, 32] div prod_list [2, 2]"
proof -
  let ?G = "\<lparr> gc_k = 4, gc_d = 1, gc_r = 8, gc_conv_op = Conv2d, gc_pool_size = [2, 2] \<rparr>"
  let ?GR = "\<lparr> gr_channels = 64, gr_r = 8, gr_conv_op = Conv2d, gr_img_shape = [32, 32],
           gr_graph_conv = ?G, gr_pool_size = [2, 2], gr_n = 256,
           gr_relative_pos = Some (256 :: int, 4 :: int) \<rparr>"
  have e1: "PoolDyGraphConv_init 64 128 4 1 ''mr'' 8 Conv2d (Some [32, 32]) (Some [4, 4]) = Inr ?G"
    by code_simp
  have e2: "PoolGrapher_init (\<lambda>c channels n size. Inr size) 64 [32, 32] 4 1 ''mr'' 8 True Conv2d
       (Some [4, 4]) = Inr ?GR"
    by code_simp
  have e3: "PoolDyGraphConv_forward (\<lambda>x y rp. Inr ()) (\<lambda>x e y. Inr [x ! 0, 2 * x ! 1, x ! 2, 1])
       ?G [2, 64, 32, 32] () = Inr [2, 128, 32, 32]"
    by code_simp
  from e1 e2 e3
    pooling_rule [of 64 128 4 1 "''mr''" 8 Conv2d "[32, 32]" "[4, 4]" ?G
      "\<lambda>c channels n size. Inr size" True ?GR
      "\<lambda>x y rp. Inr ()" "\<lambda>x e y. Inr [x ! 0, 2 * x ! 1, x ! 2, 1]" ?G "[2, 64, 32, 32]" "()"
      "[2, 128, 32, 32]" 2 64 "[32, 32]"]
  show ?thesis
    by simp
qed

text \<open>
  Claim C7 as stated fails: the same layer, given an input of 31 by 31, max-pools it to 15
  by 15 and unpools the graph-convolution output to 30 by 30, not to the pre-pooling size.
\<close>

theorem forward_odd_input:
  "PoolDyGraphConv_init 64 128 4 1 ''mr'' 8 Conv2d (Some [32, 32]) (Some [4, 4]) =
     Inr \<lparr> gc_k = 4, gc_d = 1, gc_r = 8, gc_conv_op = Conv2d, gc_pool_size = [2, 2] \<rparr> \<and>
   PoolDyGraphConv_forward (\<lambda>x y rp. Inr ()) (\<lambda>x e y. Inr [x ! 0, 2 * x ! 1, x ! 2, 1])
       \<lparr> gc_k = 4, gc_d = 1, gc_r = 8, gc_conv_op = Conv2d, gc_pool_size = [2, 2] \<rparr>
       [2, 64, 31, 31] () =
     Inr [2, 128, 30, 30]"
  by code_simp

section \<open>When the relative position embedding is interpolated\<close>

lemma Grapher_get_relative_pos_spec:
  "(g_conv_op self = Conv2d \<and> d = 2 \<or> g_conv_op self = Conv3d \<and> d = 3) \<and>
   length size_tuple = d \<Longrightarrow>
   Grapher_get_relative_pos interpolate self relative_pos size_tuple =
     spec_relative_pos interpolate (g_n self) (g_r self) d relative_pos size_tuple"
  by (cases size_tuple; cases "tl size_tuple"; cases "tl (tl size_tuple)";
      cases "tl (tl (tl size_tuple))")
     (auto simp: Grapher_get_relative_pos_def spec_relative_pos_def power2_eq_square
        power3_eq_cube mult.assoc Let_def split: option.splits)

lemma SwinGrapher_get_relative_pos_spec:
  "(sw_conv_op self = Conv2d \<and> d = 2 \<or> sw_conv_op self = Conv3d \<and> d = 3) \<and>
   length size_tuple = d \<Longrightarrow>
   SwinGrapher_get_relative_pos interpolate self relative_pos size_tuple =
     spec_relative_pos interpolate (sw_n self) (sw_r self) d relative_pos size_tuple"
  by (cases size_tuple; cases "tl size_tuple"; cases "tl (tl size_tuple)";
      cases "tl (tl (tl size_tuple))")
     (auto simp: SwinGrapher_get_relative_pos_def spec_relative_pos_def power2_eq_square
        power3_eq_cube mult.assoc Let_def split: option.splits)

lemma PoolGrapher_get_relative_pos_spec:
  "(gr_conv_op self = Conv2d \<and> d = 2 \<or> gr_conv_op self = Conv3d \<and> d = 3) \<and>
   length size_tuple = d \<Longrightarrow>
   PoolGrapher_get_relative_pos interpolate self relative_pos size_tuple =
     spec_relative_pos interpolate (gr_n self) (gr_r self) d relative_pos size_tuple"
  by (cases size_tuple; cases "tl size_tuple"; cases "tl (tl size_tuple)";
      cases "tl (tl (tl size_tuple))")
     (auto simp: PoolGrapher_get_relative_pos_def spec_relative_pos_def power2_eq_square
        power3_eq_cube mult.assoc Let_def split: option.splits)

lemma spec_relative_pos_cases:
  "spec_relative_pos interpolate n r d None size_tuple = Inr None \<and>
   (prod_list size_tuple = n \<longrightarrow>
      spec_relative_pos interpolate n r d (Some t) size_tuple = Inr (Some t)) \<and>
   (prod_list size_tuple \<noteq> n \<longrightarrow>
      spec_relative_pos interpolate n r d (Some t) size_tuple =
        and_then (floordiv (prod_list size_tuple) (r ^ d)) (\<lambda>N_reduced.
        and_then (interpolate t (prod_list size_tuple, N_reduced)) (\<lambda>t'. Inr (Some t'))))"
  by (simp add: spec_relative_pos_def)

text \<open>
  Claim C9. In \<open>_get_relative_pos\<close> of \<open>Grapher\<close>, \<open>SwinGrapher\<close> and
  \<open>PoolGrapher\<close>, for \<open>Conv2d\<close> (\<open>d = 2\<close>) or \<open>Conv3d\<close> (\<open>d = 3\<close>) and a
  tuple of \<open>d\<close> sizes with product \<open>N\<close>: the embedding is returned unchanged when
  it is \<open>None\<close> or \<open>N = self.n\<close>; otherwise the result is the interpolation of the
  embedding to the size \<open>(N, N // r ** d)\<close>, with Python's \<open>//\<close>. For every other
  \<open>conv_op\<close> the method raises \<open>NotImplementedError\<close>.
\<close>

theorem relative_pos_conditional:
  "((g_conv_op grapher = Conv2d \<and> d = 2 \<or> g_conv_op grapher = Conv3d \<and> d = 3) \<and>
    length size_tuple = d \<longrightarrow>
      Grapher_get_relative_pos interpolate grapher None size_tuple = Inr None \<and>
      (prod_list size_tuple = g_n grapher \<longrightarrow>
         Grapher_get_relative_pos interpolate grapher (Some t) size_tuple = Inr (Some t)) \<and>
      (prod_list size_tuple \<noteq> g_n grapher \<longrightarrow>
         Grapher_get_relative_pos interpolate grapher (Some t) size_tuple =
           and_then (floordiv (prod_list size_tuple) (g_r grapher ^ d)) (\<lambda>N_reduced.
           and_then (interpolate t (prod_list size_tuple, N_reduced)) (\<lambda>t'. Inr (Some t'))))) \<and>
   (g_conv_op grapher \<noteq> Conv2d \<and> g_conv_op grapher \<noteq> Conv3d \<longrightarrow>
      Grapher_get_relative_pos interpolate grapher relative_pos size_tuple =
        Inl NotImplementedError) \<and>
   ((sw_conv_op swin_grapher = Conv2d \<and> d = 2 \<or> sw_conv_op swin_grapher = Conv3d \<and> d = 3) \<and>
    length size_tuple = d \<longrightarrow>
      SwinGrapher_get_relative_pos interpolate swin_grapher None size_tuple = Inr None \<and>
      (prod_list size_tuple = sw_n swin_grapher \<longrightarrow>
         SwinGrapher_get_relative_pos interpolate swin_grapher (Some t) size_tuple =
           Inr (Some t)) \<and>
      (prod_list size_tuple \<noteq> sw_n swin_grapher \<longrightarrow>
         SwinGrapher_get_relative_pos interpolate swin_grapher (Some t) size_tuple =
           and_then (floordiv (prod_list size_tuple) (sw_r swin_grapher ^ d)) (\<lambda>N_reduced.
           and_then (interpolate t (prod_list size_tuple, N_reduced)) (\<lambda>t'. Inr (Some t'))))) \<and>
   (sw_conv_op swin_grapher \<noteq> Conv2d \<and> sw_conv_op swin_grapher \<noteq> Conv3d \<longrightarrow>
      SwinGrapher_get_relative_pos interpolate swin_grapher relative_pos size_tuple =
        Inl NotImplementedError) \<and>
   ((gr_conv_op pool_grapher = Conv2d \<and> d = 2 \<or> gr_conv_op pool_grapher = Conv3d \<and> d = 3) \<and>
    length size_tuple = d \<longrightarrow>
      PoolGrapher_get_relative_pos interpolate pool_grapher None size_tuple = Inr None \<and>
      (prod_list size_tuple = gr_n pool_grapher \<longrightarrow>
         PoolGrapher_get_relative_pos interpolate pool_grapher (Some t) size_tuple =
           Inr (Some t)) \<and>
      (prod_list size_tuple \<noteq> gr_n pool_grapher \<longrightarrow>
         PoolGrapher_get_relative_pos interpolate pool_grapher (Some t) size_tuple =
           and_then (floordiv (prod_list size_tuple) (gr_r pool_grapher ^ d)) (\<lambda>N_reduced.
           and_then (interpolate t (prod_list size_tuple, N_reduced)) (\<lambda>t'. Inr (Some t'))))) \<and>
   (gr_conv_op pool_grapher \<noteq> Conv2d \<and> gr_conv_op pool_grapher \<noteq> Conv3d \<longrightarrow>
      PoolGrapher_get_relative_pos interpolate pool_grapher relative_pos size_tuple =
        Inl NotImplementedError)"
proof -
  have other:
    "g_conv_op grapher \<noteq> Conv2d \<and> g_conv_op grapher \<noteq> Conv3d \<longrightarrow>
       Grapher_get_relative_pos interpolate grapher relative_pos size_tuple =
         Inl NotImplementedError"
    "sw_conv_op swin_grapher \<noteq> Conv2d \<and> sw_conv_op swin_grapher \<noteq> Conv3d \<longrightarrow>
       SwinGrapher_get_relative_pos interpolate swin_grapher relative_pos size_tuple =
         Inl NotImplementedError"
    "gr_conv_op pool_grapher \<noteq> Conv2d \<and> gr_conv_op pool_grapher \<noteq> Conv3d \<longrightarrow>
       PoolGrapher_get_relative_pos interpolate pool_grapher relative_pos size_tuple =
         Inl NotImplementedError"
    by (simp_all add: Grapher_get_relative_pos_def SwinGrapher_get_relative_pos_def
        PoolGrapher_get_relative_pos_def)
  show ?thesis
    using other
      Grapher_get_relative_pos_spec [of grapher d size_tuple interpolate]
      SwinGrapher_get_relative_pos_spec [of swin_grapher d size_tuple interpolate]
      PoolGrapher_get_relative_pos_spec [of pool_grapher d size_tuple interpolate]
      spec_relative_pos_cases [of interpolate _ _ d size_tuple t]
    by presburger
qed

text \<open>
  The theorem at a \<open>PoolGrapher\<close> with \<open>n = 256\<close> and \<open>r = 8\<close>, on 16 by 16
  (unchanged) and on 12 by 12 (interpolated to 144 by 2); the interpolation stands in as
  the function that returns the requested size.
\<close>

theorem relative_pos_conditional_witness:
  "PoolGrapher_get_relative_pos (\<lambda>t size. Inr size)
       \<lparr> gr_channels = 64, gr_r = 8, gr_conv_op = Conv2d, gr_img_shape = [32, 32],
         gr_graph_conv =
           \<lparr> gc_k = 4, gc_d = 1, gc_r = 8, gc_conv_op = Conv2d, gc_pool_size = [2, 2] \<rparr>,
         gr_pool_size = [2, 2], gr_n = 256, gr_relative_pos = Some (256 :: int, 4 :: int) \<rparr>
       (Some (256, 4)) [16, 16] = Inr (Some (256 :: int, 4 :: int)) \<and>
   PoolGrapher_get_relative_pos (\<lambda>t size. Inr size)
       \<lparr> gr_channels = 64, gr_r = 8, gr_conv_op = Conv2d, gr_img_shape = [32, 32],
         gr_graph_conv =
           \<lparr> gc_k = 4, gc_d = 1, gc_r = 8, gc_conv_op = Conv2d, gc_pool_size = [2, 2] \<rparr>,
         gr_pool_size = [2, 2], gr_n = 256, gr_relative_pos = Some (256 :: int, 4 :: int) \<rparr>
       (Some (256, 4)) [12, 12] = Inr (Some (144 :: int, 2 :: int)) \<and>
   Grapher_get_relative_pos (\<lambda>t size. Inr size)
       \<lparr> g_channels = 64, g_n = 196, g_r = 1, g_conv_op = Conv2d \<rparr>
       (Some (256, 4)) [12, 12] = Inr (Some (144 :: int, 144 :: int)) \<and>
   SwinGrapher_get_relative_pos (\<lambda>t size. Inr size)
       \<lparr> sw_channels = 64, sw_r = 1, sw_conv_op = Conv1d, sw_img_shape = [32, 32],
         sw_window_size = [4, 4], sw_shift_size = [2, 2], sw_n = 16 \<rparr>
       (Some (256 :: int, 4 :: int)) [12, 12] = Inl NotImplementedError"
proof -
  let ?I = "\<lambda>(t :: int \<times> int) (size :: int \<times> int). (Inr size :: error + int \<times> int)"
  let ?GR = "\<lparr> gr_channels = 64, gr_r = 8, gr_conv_op = Conv2d, gr_img_shape = [32, 32],
         gr_graph_conv =
           \<lparr> gc_k = 4, gc_d = 1, gc_r = 8, gc_conv_op = Conv2d, gc_pool_size = [2, 2] \<rparr>,
         gr_pool_size = [2, 2], gr_n = 256, gr_relative_pos = Some (256 :: int, 4 :: int) \<rparr>"
  let ?G = "\<lparr> g_channels = 64, g_n = 196, g_r = 1, g_conv_op = Conv2d \<rparr>"
  let ?S = "\<lparr> sw_channels = 64, sw_r = 1, sw_conv_op = Conv1d, sw_img_shape = [32, 32],
         sw_window_size = [4, 4], sw_shift_size = [2, 2], sw_n = 16 \<rparr>"
  from relative_pos_conditional [of ?G 2 "[12, 12]" ?I "(256, 4)" "Some (256, 4)" ?S ?GR]
    relative_pos_conditional [of ?G 2 "[16, 16]" ?I "(256, 4)" "Some (256, 4)" ?S ?GR]
  show ?thesis
    by (simp add: and_then_def floordiv_def)
qed

section \<open>The network class is always NexToU\<close>

lemma NexToU_in_mapping:
  "''NexToU'' \<in> set (map fst mapping) \<and> lookup mapping ''NexToU'' = Inr NexToU"
  by (simp add: mapping_def lookup_def)

lemma build_never_assertion:
  "build_network_architecture ext cm architecture_class_name num_input_channels
     num_output_channels enable_deep_supervision \<noteq> Inl ArchitectureAssertion"
  using NexToU_in_mapping
  unfolding build_network_architecture_def Let_def then_do_def
  by (auto simp: raising_def split: sum.splits)

lemma build_class:
  assumes "build_network_architecture ext cm architecture_class_name num_input_channels
     num_output_channels enable_deep_supervision = Inr m"
  shows "model_class m = NexToU \<and> model_applied m = [''InitWeights_He'']"
  using assms NexToU_in_mapping
  unfolding build_network_architecture_def Let_def then_do_def
  by (auto simp: raising_def split: sum.splits)

text \<open>
  Claim C10. \<open>build_network_architecture\<close> does not depend on its argument
  \<open>architecture_class_name\<close>; \<open>'NexToU'\<close> is a key of \<open>mapping\<close>, bound to the
  class \<open>NexToU\<close>; the method never fails with the \<open>AssertionError\<close> of its
  membership assertion; and a model it returns is an instance of \<open>NexToU\<close>.
\<close>

theorem network_class_hardcoded:
  "build_network_architecture ext cm architecture_class_name num_input_channels
     num_output_channels enable_deep_supervision =
   build_network_architecture ext cm other_class_name num_input_channels
     num_output_channels enable_deep_supervision \<and>
   ''NexToU'' \<in> set (map fst mapping) \<and>
   lookup mapping ''NexToU'' = Inr NexToU \<and>
   build_network_architecture ext cm architecture_class_name num_input_channels
     num_output_channels enable_deep_supervision \<noteq> Inl ArchitectureAssertion \<and>
   (build_network_architecture ext cm architecture_class_name num_input_channels
      num_output_channels enable_deep_supervision = Inr m \<longrightarrow>
    model_class m = NexToU)"
  using NexToU_in_mapping
    build_never_assertion [of ext cm architecture_class_name num_input_channels
      num_output_channels enable_deep_supervision]
    build_class [of ext cm architecture_class_name num_input_channels
      num_output_channels enable_deep_supervision m]
  by (simp add: build_network_architecture_def)

text \<open>
  The theorem at the five-stage configuration, asked for a \<open>PlainConvUNet\<close>, with
  helpers and constructors that succeed.
\<close>

theorem network_class_hardcoded_witness:
  "build_network_architecture
     \<lparr> convert_dim_to_conv_op = (\<lambda>dim. if dim = 2 then Inr Conv2d else Inr Conv3d),
       get_matching_batchnorm = (\<lambda>c. Inr ''BatchNorm''),
       num_segmentation_heads = Inr 2,
       construct = (\<lambda>c call. Inr ()) \<rparr>
     example_configuration ''PlainConvUNet'' 1 2 True =
   Inr \<lparr> model_class = NexToU, model_instance = (),
         model_applied = [''InitWeights_He''] \<rparr> \<and>
   model_class \<lparr> model_class = NexToU, model_instance = (),
         model_applied = [''InitWeights_He''] \<rparr> = NexToU"
proof -
  let ?E = "\<lparr> convert_dim_to_conv_op = (\<lambda>dim. if dim = 2 then Inr Conv2d else Inr Conv3d),
       get_matching_batchnorm = (\<lambda>c. Inr ''BatchNorm''),
       num_segmentation_heads = Inr 2,
       construct = (\<lambda>c (call :: string network_call). (Inr () :: error + unit)) \<rparr>"
  let ?M = "\<lparr> model_class = NexToU, model_instance = (),
         model_applied = [''InitWeights_He''] \<rparr>"
  have e: "build_network_architecture ?E example_configuration ''PlainConvUNet'' 1 2 True = Inr ?M"
    by code_simp
  from e network_class_hardcoded [of ?E example_configuration "''PlainConvUNet''" 1 2 True
      "''NexToU''" ?M]
  show ?thesis by blast
qed

section \<open>The surface dice is a ratio of counts, and symmetric\<close>






text \<open>
  Claim C3. On two images of the same shape, \<open>normalized_surface_dice(a, b, t, spacing)\<close>
  and \<open>normalized_surface_dice(b, a, t, spacing)\<close> agree: both raise or both return the
  same value.
\<close>

theorem surface_dice_symmetric:
  "image_shape a = image_shape b \<longrightarrow>
   normalized_surface_dice surface_distances a b threshold spacing =
   normalized_surface_dice surface_distances b a threshold spacing"
  by (auto simp: normalized_surface_dice_def Let_def add_ac split: option.splits)

text \<open>The theorem on the two images above, with the default spacing.\<close>

theorem surface_dice_symmetric_witness:
  "image_shape \<lparr> image_shape = [2, 2], image_voxels = [True, True, False, False] \<rparr> =
   image_shape \<lparr> image_shape = [2, 2], image_voxels = [True, False, False, False] \<rparr> \<and>
   normalized_surface_dice
      (\<lambda>a b spacing c. Some (map (\<lambda>v. if v then 0 else 3 / 2) (image_voxels a)))
      \<lparr> image_shape = [2, 2], image_voxels = [True, True, False, False] \<rparr>
      \<lparr> image_shape = [2, 2], image_voxels = [True, False, False, False] \<rparr>
      1 None =
   normalized_surface_dice
      (\<lambda>a b spacing c. Some (map (\<lambda>v. if v then 0 else 3 / 2) (image_voxels a)))
      \<lparr> image_shape = [2, 2], image_voxels = [True, False, False, False] \<rparr>
      \<lparr> image_shape = [2, 2], image_voxels = [True, True, False, False] \<rparr>
      1 None"
  using surface_dice_symmetric
    [of "\<lparr> image_shape = [2, 2], image_voxels = [True, True, False, False] \<rparr>"
      "\<lparr> image_shape = [2, 2], image_voxels = [True, False, False, False] \<rparr>"
      "\<lambda>a b spacing c. Some (map (\<lambda>v. if v then 0 else 3 / 2) (image_voxels a))" 1 None]
  by simp

section \<open>Window partition and reverse are inverse\<close>

subsection \<open>Flat positions and multi-indices\<close>













subsection \<open>Tensors of rank four\<close>


















subsection \<open>Tensors of rank five\<close>








subsection \<open>The round trip\<close>




end
